theory Spec2Isabelle
  imports Complex_Main
begin

section \<open>Numbers and vectors\<close>

text \<open>
  Every JavaScript number of \<^verbatim>\<open>src/main.js\<close> is modelled as a real: the
  arithmetic of the game is the arithmetic of IEEE doubles idealised to exact reals.
  Counters that are only ever incremented from a literal (levels, projectile counts,
  kills) are naturals.

  \<^verbatim>\<open>THREE.Vector3\<close> is a record of three reals. \<^verbatim>\<open>distanceTo\<close>,
  \<^verbatim>\<open>length\<close> and \<^verbatim>\<open>normalize\<close> follow three.js:
  \<^verbatim>\<open>normalize() { return this.divideScalar(this.length() || 1) }\<close>.
\<close>

record vec3 =
  vx :: real
  vy :: real
  vz :: real

definition vec :: "real \<Rightarrow> real \<Rightarrow> real \<Rightarrow> vec3" where
  "vec a b c = \<lparr>vx = a, vy = b, vz = c\<rparr>"

definition subVectors :: "vec3 \<Rightarrow> vec3 \<Rightarrow> vec3" where
  "subVectors a b = vec (vx a - vx b) (vy a - vy b) (vz a - vz b)"

definition lengthSq :: "vec3 \<Rightarrow> real" where
  "lengthSq v = vx v * vx v + vy v * vy v + vz v * vz v"

definition vlength :: "vec3 \<Rightarrow> real" where
  "vlength v = sqrt (lengthSq v)"

definition distanceTo :: "vec3 \<Rightarrow> vec3 \<Rightarrow> real" where
  "distanceTo a b = vlength (subVectors a b)"

definition divideScalar :: "vec3 \<Rightarrow> real \<Rightarrow> vec3" where
  "divideScalar v s = vec (vx v / s) (vy v / s) (vz v / s)"

definition normalizeV :: "vec3 \<Rightarrow> vec3" where
  "normalizeV v = divideScalar v (if vlength v = 0 then 1 else vlength v)"

section \<open>Weapon\<close>

text \<open>
  \<^verbatim>\<open>class Weapon\<close>: the constructor takes the type as a string and treats
  every string other than \<^verbatim>\<open>'pistol'\<close> as the shotgun.
\<close>

record Weapon =
  w_type :: string
  w_level :: nat
  w_name :: string
  w_damage :: real
  fireRate :: real
  w_range :: real
  projectileCount :: nat
  spreadAngle :: real
  w_color :: nat

definition new_Weapon :: "string \<Rightarrow> Weapon" where
  "new_Weapon t =
     (if t = ''pistol''
      then \<lparr>w_type = t, w_level = 1, w_name = ''Pistola'', w_damage = 1, fireRate = 0.5,
            w_range = 15, projectileCount = 1, spreadAngle = 0, w_color = 0xffff00\<rparr>
      else \<lparr>w_type = t, w_level = 1, w_name = ''Escopeta'', w_damage = 1.5, fireRate = 1.2,
            w_range = 8, projectileCount = 3, spreadAngle = pi / 8, w_color = 0xff6600\<rparr>)"

definition upgrade :: "Weapon \<Rightarrow> Weapon" where
  "upgrade w =
     (let w1 = w\<lparr>w_level := w_level w + 1\<rparr>
      in if w_type w1 = ''pistol''
         then w1\<lparr>fireRate := fireRate w1 * 0.85, w_damage := w_damage w1 * 1.1\<rparr>
         else if w_level w1 mod 2 = 0
              then w1\<lparr>projectileCount := projectileCount w1 + 1\<rparr>
              else w1\<lparr>w_damage := w_damage w1 * 1.2\<rparr>)"

section \<open>WaveManager\<close>

record WaveManager =
  gameTime :: real
  healthMult :: real
  spawnMult :: real

definition new_WaveManager :: WaveManager where
  "new_WaveManager = \<lparr>gameTime = 0, healthMult = 1, spawnMult = 1\<rparr>"

definition wave_update :: "real \<Rightarrow> WaveManager \<Rightarrow> WaveManager" where
  "wave_update dt w =
     (let t = gameTime w + dt
      in \<lparr>gameTime = t,
          healthMult = 1 + of_int \<lfloor>t / 60\<rfloor> * 0.5,
          spawnMult = max 0.3 (1 - of_int \<lfloor>t / 30\<rfloor> * 0.1)\<rparr>)"

text \<open>A run of the wave manager: one \<^verbatim>\<open>update(dt)\<close> per frame, oldest frame first.\<close>

definition wave_run :: "real list \<Rightarrow> WaveManager \<Rightarrow> WaveManager" where
  "wave_run dts w = foldl (\<lambda>s dt. wave_update dt s) w dts"

section \<open>Projectile and firing\<close>

text \<open>
  Rendering, particles, floating damage numbers, sound and the DOM are collaborators
  that never feed back into the simulation; their calls are left out of the model.
  Every other statement of the simulation classes is kept, in the order of the source.
\<close>

record Projectile =
  p_pos :: vec3
  p_speed :: real
  p_direction :: vec3
  p_lifetime :: real
  p_age :: real
  p_isDestroyed :: bool
  p_damage :: real
  p_color :: nat

definition new_Projectile :: "real \<Rightarrow> nat \<Rightarrow> Projectile" where
  "new_Projectile damage color =
     \<lparr>p_pos = vec 0 0 0, p_speed = 25, p_direction = vec 0 0 0, p_lifetime = 2,
      p_age = 0, p_isDestroyed = False, p_damage = damage, p_color = color\<rparr>"

definition projectile_start :: "vec3 \<Rightarrow> vec3 \<Rightarrow> Projectile \<Rightarrow> Projectile" where
  "projectile_start pos dir p =
     p\<lparr>p_pos := pos\<lparr>vy := 1\<rparr>, p_direction := (normalizeV dir)\<lparr>vy := 0\<rparr>\<rparr>"

definition projectile_update :: "real \<Rightarrow> Projectile \<Rightarrow> Projectile" where
  "projectile_update dt p =
     (if p_isDestroyed p then p
      else let q = p\<lparr>p_pos := (p_pos p)\<lparr>vx := vx (p_pos p) + vx (p_direction p) * p_speed p * dt,
                                       vz := vz (p_pos p) + vz (p_direction p) * p_speed p * dt\<rparr>,
                      p_age := p_age p + dt\<rparr>
           in if p_age q \<ge> p_lifetime q then q\<lparr>p_isDestroyed := True\<rparr> else q)"

definition projectile_destroy :: "Projectile \<Rightarrow> Projectile" where
  "projectile_destroy p = p\<lparr>p_isDestroyed := True\<rparr>"

definition rotateY :: "vec3 \<Rightarrow> real \<Rightarrow> vec3" where
  "rotateY v angle =
     (let c = cos angle; s = sin angle
      in v\<lparr>vx := vx v * c - vz v * s, vz := vx v * s + vz v * c\<rparr>)"

text \<open>
  \<^verbatim>\<open>Weapon.fire\<close> pushes its projectiles onto the shared array; the model returns
  them in push order.
\<close>

definition fire :: "Weapon \<Rightarrow> vec3 \<Rightarrow> vec3 \<Rightarrow> Projectile list" where
  "fire w playerPos targetPos =
     (let baseDir = normalizeV ((subVectors targetPos playerPos)\<lparr>vy := 0\<rparr>)
      in if projectileCount w = 1
         then [projectile_start playerPos baseDir (new_Projectile (w_damage w) (w_color w))]
         else let half = spreadAngle w * (real (projectileCount w) - 1) / 2
              in map (\<lambda>i. projectile_start playerPos
                             (rotateY baseDir (- half + spreadAngle w * real i))
                             (new_Projectile (w_damage w) (w_color w)))
                     [0 ..< projectileCount w])"

section \<open>Enemy, Boss, ExperienceGem\<close>

datatype enemy_type = Normal | Runner | Tank

record EnemyCfg =
  cfg_color :: nat
  cfg_scale :: real
  cfg_speed :: real
  cfg_health :: real
  cfg_contactDamage :: real
  cfg_xpValue :: real
  cfg_weight :: real

fun ENEMY_TYPES :: "enemy_type \<Rightarrow> EnemyCfg" where
  "ENEMY_TYPES Normal = \<lparr>cfg_color = 0xff0000, cfg_scale = 1, cfg_speed = 3, cfg_health = 3,
                          cfg_contactDamage = 10, cfg_xpValue = 10, cfg_weight = 70\<rparr>"
| "ENEMY_TYPES Runner = \<lparr>cfg_color = 0xff8800, cfg_scale = 0.7, cfg_speed = 6, cfg_health = 1,
                          cfg_contactDamage = 5, cfg_xpValue = 8, cfg_weight = 20\<rparr>"
| "ENEMY_TYPES Tank = \<lparr>cfg_color = 0x9900ff, cfg_scale = 1.5, cfg_speed = 1.5, cfg_health = 10,
                        cfg_contactDamage = 20, cfg_xpValue = 25, cfg_weight = 10\<rparr>"

text \<open>
  JavaScript objects have identity: \<^verbatim>\<open>removeEnemy(e)\<close> finds \<open>e\<close> with
  \<^verbatim>\<open>indexOf\<close>, and the orbital shield keys its cooldown map by the enemy object.
  The field \<open>e_id\<close> is that identity; the spawner hands out a fresh one per enemy.
\<close>

record Enemy =
  e_id :: nat
  e_type :: enemy_type
  e_pos :: vec3
  e_direction :: vec3
  e_isDestroyed :: bool
  e_color :: nat
  e_scale :: real
  e_speed :: real
  e_maxHealth :: real
  e_health :: real
  e_contactDamage :: real
  e_xpValue :: real
  e_isFlashing :: bool
  e_flashTimer :: real
  e_flashDuration :: real

definition new_Enemy :: "nat \<Rightarrow> enemy_type \<Rightarrow> Enemy" where
  "new_Enemy i t =
     (let cfg = ENEMY_TYPES t
      in \<lparr>e_id = i, e_type = t, e_pos = vec 0 0 0, e_direction = vec 0 0 0,
          e_isDestroyed = False, e_color = cfg_color cfg, e_scale = cfg_scale cfg,
          e_speed = cfg_speed cfg, e_maxHealth = cfg_health cfg, e_health = cfg_health cfg,
          e_contactDamage = cfg_contactDamage cfg, e_xpValue = cfg_xpValue cfg,
          e_isFlashing = False, e_flashTimer = 0, e_flashDuration = 0.1\<rparr>)"

definition enemy_start :: "vec3 \<Rightarrow> real \<Rightarrow> Enemy \<Rightarrow> Enemy" where
  "enemy_start pos hm e =
     (let mh = of_int \<lfloor>e_maxHealth e * hm\<rfloor>
      in e\<lparr>e_maxHealth := mh, e_health := mh, e_pos := pos\<lparr>vy := e_scale e / 2\<rparr>\<rparr>)"

definition enemy_update :: "real \<Rightarrow> vec3 \<Rightarrow> Enemy \<Rightarrow> Enemy" where
  "enemy_update dt targetPos e =
     (if e_isDestroyed e then e
      else let e1 = (if e_isFlashing e
                     then let f = e\<lparr>e_flashTimer := e_flashTimer e - dt\<rparr>
                          in if e_flashTimer f \<le> 0 then f\<lparr>e_isFlashing := False\<rparr> else f
                     else e);
               d = normalizeV ((subVectors targetPos (e_pos e1))\<lparr>vy := 0\<rparr>)
           in e1\<lparr>e_direction := d,
                 e_pos := (e_pos e1)\<lparr>vx := vx (e_pos e1) + vx d * e_speed e1 * dt,
                                       vz := vz (e_pos e1) + vz d * e_speed e1 * dt\<rparr>\<rparr>)"

text \<open>\<^verbatim>\<open>takeDamage\<close> returns whether the enemy died; the model returns the pair.\<close>

definition enemy_takeDamage :: "real \<Rightarrow> Enemy \<Rightarrow> Enemy \<times> bool" where
  "enemy_takeDamage amt e =
     (let e1 = e\<lparr>e_health := e_health e - amt, e_isFlashing := True,
                  e_flashTimer := e_flashDuration e\<rparr>
      in (e1, e_health e1 \<le> 0))"

definition enemy_destroy :: "Enemy \<Rightarrow> Enemy" where
  "enemy_destroy e = e\<lparr>e_isDestroyed := True\<rparr>"

record Boss =
  b_pos :: vec3
  b_direction :: vec3
  b_isDestroyed :: bool
  b_maxHealth :: real
  b_health :: real
  b_speed :: real
  b_scale :: real
  b_contactDamage :: real
  b_xpValue :: real
  b_isFlashing :: bool
  b_flashTimer :: real
  b_flashDuration :: real

definition new_Boss :: Boss where
  "new_Boss = \<lparr>b_pos = vec 0 0 0, b_direction = vec 0 0 0, b_isDestroyed = False,
               b_maxHealth = 5000, b_health = 5000, b_speed = 1.5, b_scale = 4.0,
               b_contactDamage = 50, b_xpValue = 500, b_isFlashing = False,
               b_flashTimer = 0, b_flashDuration = 0.15\<rparr>"

definition boss_start :: "vec3 \<Rightarrow> Boss \<Rightarrow> Boss" where
  "boss_start pos b = b\<lparr>b_pos := pos\<lparr>vy := b_scale b / 2\<rparr>\<rparr>"

definition Boss_update :: "real \<Rightarrow> vec3 \<Rightarrow> Boss \<Rightarrow> Boss" where
  "Boss_update dt targetPos b =
     (if b_isDestroyed b then b
      else let b1 = (if b_isFlashing b
                     then let f = b\<lparr>b_flashTimer := b_flashTimer b - dt\<rparr>
                          in if b_flashTimer f \<le> 0 then f\<lparr>b_isFlashing := False\<rparr> else f
                     else b);
               d = normalizeV ((subVectors targetPos (b_pos b1))\<lparr>vy := 0\<rparr>)
           in b1\<lparr>b_direction := d,
                 b_pos := (b_pos b1)\<lparr>vx := vx (b_pos b1) + vx d * b_speed b1 * dt,
                                       vz := vz (b_pos b1) + vz d * b_speed b1 * dt\<rparr>\<rparr>)"

definition boss_takeDamage :: "real \<Rightarrow> Boss \<Rightarrow> Boss \<times> bool" where
  "boss_takeDamage amt b =
     (let b1 = b\<lparr>b_health := b_health b - amt, b_isFlashing := True,
                  b_flashTimer := b_flashDuration b\<rparr>
      in (b1, b_health b1 \<le> 0))"

definition boss_destroy :: "Boss \<Rightarrow> Boss" where
  "boss_destroy b = b\<lparr>b_isDestroyed := True\<rparr>"

record ExperienceGem =
  g_pos :: vec3
  g_xpValue :: real
  g_isCollected :: bool
  g_magnetRange :: real
  g_magnetSpeed :: real
  g_floatOffset :: real

text \<open>The constructor draws \<^verbatim>\<open>Math.random()\<close> once, for the float offset.\<close>

definition new_ExperienceGem :: "real \<Rightarrow> ExperienceGem" where
  "new_ExperienceGem r =
     \<lparr>g_pos = vec 0 0 0, g_xpValue = 10, g_isCollected = False, g_magnetRange = 3,
      g_magnetSpeed = 15, g_floatOffset = r * pi * 2\<rparr>"

definition gem_start :: "vec3 \<Rightarrow> ExperienceGem \<Rightarrow> ExperienceGem" where
  "gem_start pos g = g\<lparr>g_pos := pos\<lparr>vy := 0.3\<rparr>\<rparr>"

definition gem_update :: "real \<Rightarrow> vec3 \<Rightarrow> ExperienceGem \<Rightarrow> ExperienceGem" where
  "gem_update dt playerPos g =
     (if g_isCollected g then g
      else let fo = g_floatOffset g + dt * 3;
               g1 = g\<lparr>g_floatOffset := fo, g_pos := (g_pos g)\<lparr>vy := 0.3 + sin fo * 0.1\<rparr>\<rparr>;
               dist = distanceTo (g_pos g1) playerPos
           in if dist < g_magnetRange g1
              then let dir = normalizeV (subVectors playerPos (g_pos g1));
                       speed = g_magnetSpeed g1 * (1 + (1 - dist / g_magnetRange g1) * 2)
                   in g1\<lparr>g_pos := (g_pos g1)\<lparr>vx := vx (g_pos g1) + vx dir * speed * dt,
                                             vz := vz (g_pos g1) + vz dir * speed * dt\<rparr>\<rparr>
              else g1)"

definition gem_collect :: "ExperienceGem \<Rightarrow> ExperienceGem" where
  "gem_collect g = g\<lparr>g_isCollected := True\<rparr>"

section \<open>Skills\<close>

text \<open>
  \<^verbatim>\<open>Math.random()\<close> is a stream \<open>rnd :: nat \<Rightarrow> real\<close> of values in \<open>[0, 1)\<close>,
  read at a position that advances by one per draw. The stream holds the draws that
  feed the simulation (strike target, spawn type and angle, boss angle, gem float
  offset); the draws that only shape what is shown (bolt zigzag, particles, the shuffle
  of the upgrade menu) are independent of them and are not part of it.
  \<^verbatim>\<open>performance.now() / 1000\<close> is the frame input \<open>now\<close>.
\<close>

record Orbital =
  orb_pos :: vec3
  orb_angle :: real

record OrbitalShield =
  os_level :: nat
  os_isActive :: bool
  orbitals :: "Orbital list"
  orbitRadius :: real
  orbitSpeed :: real
  os_damage :: real
  damageInterval :: real
  damageCooldowns :: "nat \<rightharpoonup> real"
  orbitalCount :: nat

definition new_OrbitalShield :: OrbitalShield where
  "new_OrbitalShield =
     \<lparr>os_level = 1, os_isActive = False, orbitals = [], orbitRadius = 2, orbitSpeed = 3,
      os_damage = 10, damageInterval = 0.5, damageCooldowns = Map.empty, orbitalCount = 2\<rparr>"

definition orbital_upgrade :: "OrbitalShield \<Rightarrow> OrbitalShield" where
  "orbital_upgrade sh =
     (let s1 = sh\<lparr>os_level := os_level sh + 1\<rparr>;
          s2 = s1\<lparr>orbitSpeed := orbitSpeed s1 + 0.5, os_damage := os_damage s1 + 5\<rparr>
      in if os_level s2 mod 2 = 0 then s2\<lparr>orbitalCount := orbitalCount s2 + 1\<rparr> else s2)"

definition createOrbitals :: "OrbitalShield \<Rightarrow> OrbitalShield" where
  "createOrbitals sh =
     sh\<lparr>orbitals := map (\<lambda>i. \<lparr>orb_pos = vec 0 0 0,
                                orb_angle = (pi * 2 / real (orbitalCount sh)) * real i\<rparr>)
                         [0 ..< orbitalCount sh]\<rparr>"

definition orbital_start :: "OrbitalShield \<Rightarrow> OrbitalShield" where
  "orbital_start sh = createOrbitals (sh\<lparr>os_isActive := True\<rparr>)"

text \<open>
  The inner loop of \<^verbatim>\<open>OrbitalShield.update\<close>: the orbitals against one enemy. The
  flag tells that the enemy died, on which the source returns from the whole method.
\<close>

fun orbital_hit_enemy ::
  "real \<Rightarrow> vec3 \<Rightarrow> real \<Rightarrow> real \<Rightarrow> Orbital list \<Rightarrow> (nat \<rightharpoonup> real) \<Rightarrow> Enemy
   \<Rightarrow> (nat \<rightharpoonup> real) \<times> Enemy \<times> bool" where
  "orbital_hit_enemy now ppos dmg iv [] cd e = (cd, e, False)"
| "orbital_hit_enemy now ppos dmg iv (ob # obs) cd e =
     (if distanceTo (orb_pos ob) (e_pos e) < 1.2
         \<and> now - (case cd (e_id e) of None \<Rightarrow> 0 | Some t \<Rightarrow> t) \<ge> iv
      then (case enemy_takeDamage dmg e of (e1, died) \<Rightarrow>
              let knockDir = normalizeV (subVectors (e_pos e1) ppos);
                  e2 = e1\<lparr>e_pos := (e_pos e1)\<lparr>vx := vx (e_pos e1) + vx knockDir * 0.5,
                                                vz := vz (e_pos e1) + vz knockDir * 0.5\<rparr>\<rparr>
              in if died then (cd(e_id e \<mapsto> now), e2, True)
                 else orbital_hit_enemy now ppos dmg iv obs (cd(e_id e \<mapsto> now)) e2)
      else orbital_hit_enemy now ppos dmg iv obs cd e)"

fun orbital_scan ::
  "real \<Rightarrow> vec3 \<Rightarrow> real \<Rightarrow> real \<Rightarrow> Orbital list \<Rightarrow> Enemy list \<Rightarrow> (nat \<rightharpoonup> real)
   \<Rightarrow> (nat \<rightharpoonup> real) \<times> Enemy list \<times> nat option" where
  "orbital_scan now ppos dmg iv obs [] cd = (cd, [], None)"
| "orbital_scan now ppos dmg iv obs (e # es) cd =
     (if e_isDestroyed e
      then (case orbital_scan now ppos dmg iv obs es cd of (cd1, es1, r) \<Rightarrow> (cd1, e # es1, r))
      else (case orbital_hit_enemy now ppos dmg iv obs cd e of (cd1, e1, died) \<Rightarrow>
              if died then (cd1, e1 # es, Some (e_id e1))
              else (case orbital_scan now ppos dmg iv obs es cd1 of
                      (cd2, es2, r) \<Rightarrow> (cd2, e1 # es2, r))))"

definition orbital_update ::
  "real \<Rightarrow> real \<Rightarrow> vec3 \<Rightarrow> Enemy list \<Rightarrow> OrbitalShield
   \<Rightarrow> OrbitalShield \<times> Enemy list \<times> nat option" where
  "orbital_update dt now ppos es sh =
     (if \<not> os_isActive sh then (sh, es, None)
      else let s1 = (if length (orbitals sh) < orbitalCount sh then createOrbitals sh else sh);
               obs = map (\<lambda>ob. let a = orb_angle ob + orbitSpeed s1 * dt
                                in \<lparr>orb_pos = vec (vx ppos + cos a * orbitRadius s1) 1
                                                  (vz ppos + sin a * orbitRadius s1),
                                    orb_angle = a\<rparr>)
                         (orbitals s1);
               s2 = s1\<lparr>orbitals := obs\<rparr>
           in (case orbital_scan now ppos (os_damage s2) (damageInterval s2) obs es
                       (damageCooldowns s2) of
                 (cd, es1, r) \<Rightarrow> (s2\<lparr>damageCooldowns := cd\<rparr>, es1, r)))"

definition orbital_destroy :: "OrbitalShield \<Rightarrow> OrbitalShield" where
  "orbital_destroy sh = sh\<lparr>os_isActive := False, orbitals := [], damageCooldowns := Map.empty\<rparr>"

record Bolt =
  bolt_age :: real
  bolt_lifetime :: real

record ThunderStrike =
  ts_level :: nat
  ts_isActive :: bool
  cooldown :: real
  ts_timer :: real
  ts_damage :: real
  lightningBolts :: "Bolt list"

definition new_ThunderStrike :: ThunderStrike where
  "new_ThunderStrike =
     \<lparr>ts_level = 1, ts_isActive = False, cooldown = 3, ts_timer = 0, ts_damage = 50,
      lightningBolts = []\<rparr>"

definition thunder_upgrade :: "ThunderStrike \<Rightarrow> ThunderStrike" where
  "thunder_upgrade t =
     t\<lparr>ts_level := ts_level t + 1, cooldown := max 1 (cooldown t - 0.3),
       ts_damage := ts_damage t + 15\<rparr>"

definition thunder_start :: "ThunderStrike \<Rightarrow> ThunderStrike" where
  "thunder_start t = t\<lparr>ts_isActive := True\<rparr>"

definition age_bolts :: "real \<Rightarrow> Bolt list \<Rightarrow> Bolt list" where
  "age_bolts dt bs =
     filter (\<lambda>b. \<not> bolt_age b \<ge> bolt_lifetime b)
            (map (\<lambda>b. b\<lparr>bolt_age := bolt_age b + dt\<rparr>) bs)"

text \<open>
  \<^verbatim>\<open>validEnemies\<close> holds references into the enemy array; the model keeps the indices
  of the non-destroyed enemies instead, so that the strike updates the array in place.
\<close>

definition validEnemies :: "Enemy list \<Rightarrow> nat list" where
  "validEnemies es = filter (\<lambda>i. \<not> e_isDestroyed (es ! i)) [0 ..< length es]"

text \<open>
  \<^verbatim>\<open>ThunderStrike.update\<close>. The result is the state of the skill, the enemy array,
  the position in the random stream, and the identity of the enemy reported dead, if
  any. With \<open>rnd k\<close> in \<open>[0, 1)\<close> the index is within
  \<^verbatim>\<open>validEnemies\<close>; outside that range the source would fail on \<^verbatim>\<open>undefined\<close>, and
  the model strikes nothing.
\<close>

definition thunder_update ::
  "real \<Rightarrow> (nat \<Rightarrow> real) \<Rightarrow> nat \<Rightarrow> Enemy list \<Rightarrow> ThunderStrike
   \<Rightarrow> ThunderStrike \<times> Enemy list \<times> nat \<times> nat option" where
  "thunder_update dt rnd k es t =
     (if \<not> ts_isActive t then (t, es, k, None)
      else let t1 = t\<lparr>lightningBolts := age_bolts dt (lightningBolts t)\<rparr>;
               t2 = t1\<lparr>ts_timer := ts_timer t1 + dt\<rparr>
           in if ts_timer t2 \<ge> cooldown t2 \<and> length es > 0
              then let t3 = t2\<lparr>ts_timer := 0\<rparr>;
                       valid = validEnemies es
                   in if length valid = 0 then (t3, es, k, None)
                      else let n = nat \<lfloor>rnd k * real (length valid)\<rfloor>
                           in if n < length valid
                              then let i = valid ! n;
                                       t4 = t3\<lparr>lightningBolts := lightningBolts t3
                                                  @ [\<lparr>bolt_age = 0, bolt_lifetime = 0.15\<rparr>]\<rparr>
                                   in (case enemy_takeDamage (ts_damage t4) (es ! i) of
                                         (e1, died) \<Rightarrow>
                                           (t4, es[i := e1], k + 1,
                                            if died then Some (e_id e1) else None))
                              else (t3, es, k + 1, None)
              else (t2, es, k, None))"

definition thunder_destroy :: "ThunderStrike \<Rightarrow> ThunderStrike" where
  "thunder_destroy t = t\<lparr>ts_isActive := False, lightningBolts := []\<rparr>"

datatype Skill = OrbitalSkill OrbitalShield | ThunderSkill ThunderStrike

fun skill_upgrade :: "Skill \<Rightarrow> Skill" where
  "skill_upgrade (OrbitalSkill sh) = OrbitalSkill (orbital_upgrade sh)"
| "skill_upgrade (ThunderSkill t) = ThunderSkill (thunder_upgrade t)"

fun skill_update ::
  "real \<Rightarrow> real \<Rightarrow> (nat \<Rightarrow> real) \<Rightarrow> nat \<Rightarrow> vec3 \<Rightarrow> Enemy list \<Rightarrow> Skill
   \<Rightarrow> Skill \<times> Enemy list \<times> nat \<times> nat option" where
  "skill_update dt now rnd k ppos es (OrbitalSkill sh) =
     (case orbital_update dt now ppos es sh of (s1, es1, r) \<Rightarrow> (OrbitalSkill s1, es1, k, r))"
| "skill_update dt now rnd k ppos es (ThunderSkill t) =
     (case thunder_update dt rnd k es t of (t1, es1, k1, r) \<Rightarrow> (ThunderSkill t1, es1, k1, r))"

text \<open>
  \<^verbatim>\<open>SkillManager.skills\<close> is an object used as a dictionary; \<^verbatim>\<open>Object.values\<close>
  lists it in insertion order, so the model is an association list in that order. The
  keys are the skill types, \<^verbatim>\<open>'orbital'\<close> and \<^verbatim>\<open>'thunder'\<close>, the only ones the game
  passes. The model looks a key up among the entries of the object itself: a key that
  names a property inherited from \<^verbatim>\<open>Object.prototype\<close> (such as \<^verbatim>\<open>'constructor'\<close>),
  which the source's \<^verbatim>\<open>this.skills[skillType]\<close> would find, is outside the model.
\<close>

type_synonym SkillManager = "(string \<times> Skill) list"

definition addSkill :: "string \<Rightarrow> SkillManager \<Rightarrow> SkillManager" where
  "addSkill skillType sm =
     (if skillType \<in> set (map fst sm)
      then map (\<lambda>(key, sk). if key = skillType then (key, skill_upgrade sk) else (key, sk)) sm
      else if skillType = ''orbital''
           then sm @ [(skillType, OrbitalSkill (orbital_start new_OrbitalShield))]
           else if skillType = ''thunder''
                then sm @ [(skillType, ThunderSkill (thunder_start new_ThunderStrike))]
                else sm)"

definition hasSkill :: "string \<Rightarrow> SkillManager \<Rightarrow> bool" where
  "hasSkill skillType sm = (skillType \<in> set (map fst sm))"

text \<open>
  \<^verbatim>\<open>SkillManager.update\<close>: every skill in turn, on the enemy array the previous one
  left; the non-null results are collected in order.
\<close>

fun skills_update ::
  "real \<Rightarrow> real \<Rightarrow> (nat \<Rightarrow> real) \<Rightarrow> nat \<Rightarrow> vec3 \<Rightarrow> Enemy list \<Rightarrow> SkillManager
   \<Rightarrow> SkillManager \<times> Enemy list \<times> nat \<times> nat list" where
  "skills_update dt now rnd k ppos es [] = ([], es, k, [])"
| "skills_update dt now rnd k ppos es ((key, sk) # sm) =
     (case skill_update dt now rnd k ppos es sk of (sk1, es1, k1, r) \<Rightarrow>
        (case skills_update dt now rnd k1 ppos es1 sm of (sm1, es2, k2, rs) \<Rightarrow>
           ((key, sk1) # sm1, es2, k2, (case r of None \<Rightarrow> rs | Some i \<Rightarrow> i # rs))))"

section \<open>InputManager and Player\<close>

record InputManager =
  key_w :: bool
  key_a :: bool
  key_s :: bool
  key_d :: bool
  joystickActive :: bool
  joystick_x :: real
  joystick_y :: real

text \<open>\<^verbatim>\<open>getMovementVector\<close> returns the pair \<open>(x, z)\<close>.\<close>

definition getMovementVector :: "InputManager \<Rightarrow> real \<times> real" where
  "getMovementVector im =
     (let keyX = (if key_d im then 1 else 0) - (if key_a im then 1 else 0);
          keyZ = (if key_s im then 1 else 0) - (if key_w im then 1 else 0)
      in if joystickActive im then (joystick_x im, - joystick_y im) else (keyX, keyZ))"

text \<open>
  \<^verbatim>\<open>activeWeapon\<close> is a reference to one of the two weapon objects of the player, so
  an upgrade of that object is seen through it; the model keeps which slot it points at.
\<close>

datatype weapon_slot = PistolSlot | ShotgunSlot

record Player =
  pl_pos :: vec3
  inputVector :: vec3
  maxHealth :: real
  currentHealth :: real
  healthRegen :: real
  pl_level :: nat
  currentXp :: real
  xpToNextLevel :: real
  xpScaling :: real
  moveSpeed :: real
  pistol :: Weapon
  shotgun :: "Weapon option"
  activeSlot :: weapon_slot
  fireTimer :: real
  skillManager :: SkillManager

text \<open>The constructor followed by \<^verbatim>\<open>start()\<close>, which places the mesh at height 1.\<close>

definition new_Player :: Player where
  "new_Player =
     \<lparr>pl_pos = vec 0 1 0, inputVector = vec 0 0 0, maxHealth = 100, currentHealth = 100,
      healthRegen = 0.5, pl_level = 1, currentXp = 0, xpToNextLevel = 20, xpScaling = 1.5,
      moveSpeed = 8, pistol = new_Weapon ''pistol'', shotgun = None, activeSlot = PistolSlot,
      fireTimer = 0, skillManager = []\<rparr>"

definition activeWeapon :: "Player \<Rightarrow> Weapon" where
  "activeWeapon p =
     (case activeSlot p of
        PistolSlot \<Rightarrow> pistol p
      | ShotgunSlot \<Rightarrow> (case shotgun p of Some w \<Rightarrow> w | None \<Rightarrow> pistol p))"

definition handleMovement :: "real \<Rightarrow> InputManager \<Rightarrow> Player \<Rightarrow> Player" where
  "handleMovement dt im p =
     (case getMovementVector im of (mx, mz) \<Rightarrow>
        let iv0 = vec mx 0 mz;
            iv = (if vlength iv0 > 0 then normalizeV iv0 else iv0)
        in p\<lparr>inputVector := iv,
              pl_pos := (pl_pos p)\<lparr>vx := vx (pl_pos p) + vx iv * moveSpeed p * dt,
                                    vz := vz (pl_pos p) + vz iv * moveSpeed p * dt\<rparr>\<rparr>)"

text \<open>
  \<^verbatim>\<open>findClosestEnemy\<close>: a first-minimum scan from \<^verbatim>\<open>minDist = Infinity\<close>, which
  is \<open>None\<close> here.
\<close>

fun closest_scan :: "vec3 \<Rightarrow> Enemy list \<Rightarrow> (Enemy \<times> real) option \<Rightarrow> (Enemy \<times> real) option" where
  "closest_scan ppos [] best = best"
| "closest_scan ppos (e # es) best =
     (let d = distanceTo ppos (e_pos e)
      in closest_scan ppos es
           (case best of
              None \<Rightarrow> Some (e, d)
            | Some (c, minDist) \<Rightarrow> if d < minDist then Some (e, d) else Some (c, minDist)))"

definition findClosestEnemy :: "vec3 \<Rightarrow> Enemy list \<Rightarrow> Enemy option" where
  "findClosestEnemy ppos es = map_option fst (closest_scan ppos es None)"

text \<open>\<^verbatim>\<open>handleShooting\<close> returns the player and the projectiles pushed by the shot.\<close>

definition handleShooting :: "real \<Rightarrow> Enemy list \<Rightarrow> Player \<Rightarrow> Player \<times> Projectile list" where
  "handleShooting dt es p =
     (let p1 = p\<lparr>fireTimer := fireTimer p + dt\<rparr>
      in if fireTimer p1 < fireRate (activeWeapon p1) then (p1, [])
         else if length es = 0 then (p1, [])
         else (case findClosestEnemy (pl_pos p1) es of
                 None \<Rightarrow> (p1, [])
               | Some closest \<Rightarrow>
                   if distanceTo (pl_pos p1) (e_pos closest) > w_range (activeWeapon p1)
                   then (p1, [])
                   else (p1\<lparr>fireTimer := 0\<rparr>,
                         fire (activeWeapon p1) (pl_pos p1) (e_pos closest))))"

definition handleRegen :: "real \<Rightarrow> Player \<Rightarrow> Player" where
  "handleRegen dt p =
     (if currentHealth p < maxHealth p
      then p\<lparr>currentHealth := min (currentHealth p + healthRegen p * dt) (maxHealth p)\<rparr>
      else p)"

definition Player_update ::
  "real \<Rightarrow> InputManager \<Rightarrow> Enemy list \<Rightarrow> Player \<Rightarrow> Player \<times> Projectile list" where
  "Player_update dt im es p =
     (case handleShooting dt es (handleMovement dt im p) of (q, ps) \<Rightarrow> (handleRegen dt q, ps))"

definition takeDamage :: "real \<Rightarrow> Player \<Rightarrow> Player \<times> bool" where
  "takeDamage amt p =
     (let p1 = p\<lparr>currentHealth := currentHealth p - amt\<rparr> in (p1, currentHealth p1 \<le> 0))"

definition heal :: "real \<Rightarrow> Player \<Rightarrow> Player" where
  "heal amt p = p\<lparr>currentHealth := min (currentHealth p + amt) (maxHealth p)\<rparr>"

definition healPercent :: "real \<Rightarrow> Player \<Rightarrow> Player" where
  "healPercent pct p = heal (maxHealth p * pct / 100) p"

text \<open>
  \<^verbatim>\<open>gainXp\<close> resolves at most one level per call. The flag tells that it called
  \<^verbatim>\<open>gameManager.triggerLevelUp()\<close> (the game manager is always set once the game runs).
\<close>

definition gainXp :: "real \<Rightarrow> Player \<Rightarrow> Player \<times> bool" where
  "gainXp amt p =
     (let p1 = p\<lparr>currentXp := currentXp p + amt\<rparr>
      in if currentXp p1 \<ge> xpToNextLevel p1
         then (p1\<lparr>currentXp := currentXp p1 - xpToNextLevel p1,
                   pl_level := pl_level p1 + 1,
                   xpToNextLevel := of_int \<lfloor>xpToNextLevel p1 * xpScaling p1\<rfloor>\<rparr>, True)
         else (p1, False))"

definition upgradePistol :: "Player \<Rightarrow> Player" where
  "upgradePistol p = p\<lparr>pistol := upgrade (pistol p)\<rparr>"

definition upgradeShotgun :: "Player \<Rightarrow> Player" where
  "upgradeShotgun p =
     (case shotgun p of
        None \<Rightarrow> p\<lparr>shotgun := Some (new_Weapon ''shotgun''), activeSlot := ShotgunSlot\<rparr>
      | Some w \<Rightarrow> p\<lparr>shotgun := Some (upgrade w)\<rparr>)"

definition switchWeapon :: "string \<Rightarrow> Player \<Rightarrow> Player" where
  "switchWeapon t p =
     (if t = ''pistol'' then p\<lparr>activeSlot := PistolSlot\<rparr>
      else if t = ''shotgun'' \<and> shotgun p \<noteq> None then p\<lparr>activeSlot := ShotgunSlot\<rparr>
      else p)"

definition player_addSkill :: "string \<Rightarrow> Player \<Rightarrow> Player" where
  "player_addSkill t p = p\<lparr>skillManager := addSkill t (skillManager p)\<rparr>"





section \<open>EnemySpawner\<close>

record EnemySpawner =
  enemies :: "Enemy list"
  baseInterval :: real
  sp_timer :: real
  spawnDist :: real
  totalWeight :: real
  nextId :: nat

definition new_EnemySpawner :: EnemySpawner where
  "new_EnemySpawner =
     \<lparr>enemies = [], baseInterval = 0.8, sp_timer = 0, spawnDist = 20,
      totalWeight = sum_list (map (\<lambda>t. cfg_weight (ENEMY_TYPES t)) [Normal, Runner, Tank]),
      nextId = 0\<rparr>"

fun selectType_scan :: "real \<Rightarrow> real \<Rightarrow> enemy_type list \<Rightarrow> enemy_type" where
  "selectType_scan roll cum [] = Normal"
| "selectType_scan roll cum (t # ts) =
     (if roll < cum + cfg_weight (ENEMY_TYPES t) then t
      else selectType_scan roll (cum + cfg_weight (ENEMY_TYPES t)) ts)"

definition selectType :: "real \<Rightarrow> EnemySpawner \<Rightarrow> enemy_type" where
  "selectType r sp = selectType_scan (r * totalWeight sp) 0 [Normal, Runner, Tank]"

definition spawn :: "(nat \<Rightarrow> real) \<Rightarrow> nat \<Rightarrow> WaveManager \<Rightarrow> vec3 \<Rightarrow> EnemySpawner \<Rightarrow> EnemySpawner \<times> nat" where
  "spawn rnd k wm ppos sp =
     (let t = selectType (rnd k) sp;
          e = new_Enemy (nextId sp) t;
          angle = rnd (k + 1) * pi * 2;
          pos = vec (vx ppos + cos angle * spawnDist sp) 0 (vz ppos + sin angle * spawnDist sp)
      in (sp\<lparr>enemies := enemies sp @ [enemy_start pos (healthMult wm) e],
              nextId := nextId sp + 1\<rparr>, k + 2))"

definition spawner_update ::
  "real \<Rightarrow> (nat \<Rightarrow> real) \<Rightarrow> nat \<Rightarrow> WaveManager \<Rightarrow> vec3 \<Rightarrow> EnemySpawner \<Rightarrow> EnemySpawner \<times> nat" where
  "spawner_update dt rnd k wm ppos sp =
     (let interval = baseInterval sp * spawnMult wm;
          s1 = sp\<lparr>sp_timer := sp_timer sp + dt\<rparr>
      in (case (if sp_timer s1 \<ge> interval then spawn rnd k wm ppos (s1\<lparr>sp_timer := 0\<rparr>)
                else (s1, k)) of
            (s2, k1) \<Rightarrow> (s2\<lparr>enemies := map (enemy_update dt ppos) (enemies s2)\<rparr>, k1)))"

text \<open>
  \<^verbatim>\<open>removeEnemy(e)\<close> destroys and splices out the first array entry that is the
  object \<open>e\<close>, and does nothing when \<open>e\<close> is not in the array.
\<close>

fun remove_id :: "nat \<Rightarrow> Enemy list \<Rightarrow> Enemy list" where
  "remove_id i [] = []"
| "remove_id i (e # es) = (if e_id e = i then es else e # remove_id i es)"

definition removeEnemy :: "nat \<Rightarrow> EnemySpawner \<Rightarrow> EnemySpawner" where
  "removeEnemy i sp = sp\<lparr>enemies := remove_id i (enemies sp)\<rparr>"

section \<open>GameManager\<close>

text \<open>
  The fields \<open>score\<close> and \<open>kills\<close> are those of the \<^verbatim>\<open>UIManager\<close>; the three
  \<open>\<dots>Shown\<close> flags are the visibility of its level-up menu, game-over screen and
  victory screen. \<open>randoms\<close> and \<open>drawn\<close> are the random stream and the position in it.
\<close>

record GameManager =
  waveManager :: WaveManager
  player :: Player
  enemySpawner :: EnemySpawner
  projectiles :: "Projectile list"
  experienceGems :: "ExperienceGem list"
  isGameOver :: bool
  isPaused :: bool
  collisionDist :: real
  projectileHitDist :: real
  gemCollectDist :: real
  contactDmgTimer :: real
  contactDmgInterval :: real
  boss :: "Boss option"
  bossSpawned :: bool
  bossSpawnTime :: real
  isVictory :: bool
  slowMoScale :: real
  slowMoTimer :: real
  score :: real
  kills :: nat
  levelUpMenuShown :: bool
  gameOverShown :: bool
  victoryShown :: bool
  randoms :: "nat \<Rightarrow> real"
  drawn :: nat

text \<open>The constructor, \<^verbatim>\<open>awake()\<close> and \<^verbatim>\<open>start()\<close>.\<close>

definition new_GameManager :: "(nat \<Rightarrow> real) \<Rightarrow> GameManager" where
  "new_GameManager rnd =
     \<lparr>waveManager = new_WaveManager, player = new_Player, enemySpawner = new_EnemySpawner,
      projectiles = [], experienceGems = [], isGameOver = False, isPaused = False,
      collisionDist = 1.2, projectileHitDist = 1.0, gemCollectDist = 0.8,
      contactDmgTimer = 0, contactDmgInterval = 0.5, boss = None, bossSpawned = False,
      bossSpawnTime = 60, isVictory = False, slowMoScale = 1.0, slowMoTimer = 0,
      score = 0, kills = 0, levelUpMenuShown = False, gameOverShown = False,
      victoryShown = False, randoms = rnd, drawn = 0\<rparr>"

definition updateScore :: "real \<Rightarrow> GameManager \<Rightarrow> GameManager" where
  "updateScore pts g = g\<lparr>score := score g + pts, kills := kills g + 1\<rparr>"

definition triggerLevelUp :: "GameManager \<Rightarrow> GameManager" where
  "triggerLevelUp g = g\<lparr>isPaused := True, levelUpMenuShown := True\<rparr>"

text \<open>\<^verbatim>\<open>player.gainXp\<close> as the game manager sees it: the call-back included.\<close>

definition gm_gainXp :: "real \<Rightarrow> GameManager \<Rightarrow> GameManager" where
  "gm_gainXp amt g =
     (case gainXp amt (player g) of
        (p, leveled) \<Rightarrow> if leveled then triggerLevelUp (g\<lparr>player := p\<rparr>) else g\<lparr>player := p\<rparr>)"

definition gameOver :: "GameManager \<Rightarrow> GameManager" where
  "gameOver g =
     g\<lparr>isGameOver := True, isPaused := True,
       player := (player g)\<lparr>skillManager := []\<rparr>, gameOverShown := True\<rparr>"

definition spawnGem :: "vec3 \<Rightarrow> real \<Rightarrow> GameManager \<Rightarrow> GameManager" where
  "spawnGem pos xp g =
     (let gem = gem_start pos ((new_ExperienceGem (randoms g (drawn g)))\<lparr>g_xpValue := xp\<rparr>)
      in g\<lparr>experienceGems := experienceGems g @ [gem], drawn := drawn g + 1\<rparr>)"

text \<open>
  The reward loop over the skill results. A result holds a reference to the enemy object,
  read here from \<open>snapshot\<close>, the enemy array as the skills left it; the same enemy may
  be reported by both skills, and \<^verbatim>\<open>removeEnemy\<close> then finds it only the first time.
\<close>

fun process_skill_results :: "Enemy list \<Rightarrow> nat list \<Rightarrow> GameManager \<Rightarrow> GameManager" where
  "process_skill_results snapshot [] g = g"
| "process_skill_results snapshot (i # rs) g =
     (case find (\<lambda>e. e_id e = i) snapshot of
        None \<Rightarrow> process_skill_results snapshot rs g
      | Some e \<Rightarrow>
          process_skill_results snapshot rs
            (spawnGem (e_pos e) (e_xpValue e)
               (updateScore 10 (g\<lparr>enemySpawner := removeEnemy i (enemySpawner g)\<rparr>))))"

text \<open>
  \<^verbatim>\<open>updateProjectiles\<close> and \<^verbatim>\<open>updateGems\<close> walk their array from the end and
  splice out the entries that are finished; an entry's update does not depend on the
  others, so this is a map followed by a filter.
\<close>

definition updateProjectiles :: "real \<Rightarrow> GameManager \<Rightarrow> GameManager" where
  "updateProjectiles dt g =
     g\<lparr>projectiles := filter (\<lambda>p. \<not> p_isDestroyed p) (map (projectile_update dt) (projectiles g))\<rparr>"

definition updateGems :: "real \<Rightarrow> GameManager \<Rightarrow> GameManager" where
  "updateGems dt g =
     g\<lparr>experienceGems := filter (\<lambda>x. \<not> g_isCollected x)
                             (map (gem_update dt (pl_pos (player g))) (experienceGems g))\<rparr>"

definition spawnBoss :: "GameManager \<Rightarrow> GameManager" where
  "spawnBoss g =
     (let angle = randoms g (drawn g) * pi * 2;
          ppos = pl_pos (player g);
          pos = vec (vx ppos + cos angle * 35) 0 (vz ppos + sin angle * 35)
      in g\<lparr>bossSpawned := True, drawn := drawn g + 1, boss := Some (boss_start pos new_Boss)\<rparr>)"

text \<open>\<^verbatim>\<open>triggerVictory\<close> is only called while a boss exists.\<close>

definition triggerVictory :: "GameManager \<Rightarrow> GameManager" where
  "triggerVictory g =
     (case boss g of
        None \<Rightarrow> g
      | Some b \<Rightarrow>
          let g1 = g\<lparr>isVictory := True, slowMoScale := 0.2, slowMoTimer := 3.0\<rparr>;
              g2 = gm_gainXp (b_xpValue b) g1;
              g3 = updateScore 1000 g2
          in g3\<lparr>boss := Some (boss_destroy b)\<rparr>)"

definition showVictoryScreen :: "GameManager \<Rightarrow> GameManager" where
  "showVictoryScreen g =
     g\<lparr>isPaused := True, player := (player g)\<lparr>skillManager := []\<rparr>, victoryShown := True\<rparr>"

subsection \<open>Collision passes\<close>

text \<open>
  \<^verbatim>\<open>checkBossCollisions\<close> has two parts: the contact of the player with the boss, and
  the loop of the projectiles against the boss. \<open>dt\<close> is \<^verbatim>\<open>this.time.deltaTime\<close>.
\<close>

definition playerBossContact :: "real \<Rightarrow> Boss \<Rightarrow> GameManager \<Rightarrow> GameManager" where
  "playerBossContact dt b g =
     (if distanceTo (pl_pos (player g)) (b_pos b) < 3.0
      then let g1 = g\<lparr>contactDmgTimer := contactDmgTimer g + dt\<rparr>
           in if contactDmgTimer g1 \<ge> contactDmgInterval g1
              then (case takeDamage (b_contactDamage b) (player g1) of
                      (p, dead) \<Rightarrow>
                        let g2 = g1\<lparr>contactDmgTimer := 0, player := p\<rparr>
                        in if dead then gameOver g2 else g2)
              else g1
      else g)"

text \<open>
  The projectile loop runs from the last index down. \<open>todo\<close> holds the projectiles
  still to visit, last index first; \<open>kept\<close> the visited ones that stay, in array order.
  A hit splices the projectile out; the hit that kills the boss also ends the loop.
\<close>

fun projectileBossLoop :: "Projectile list \<Rightarrow> Projectile list \<Rightarrow> GameManager \<Rightarrow> GameManager" where
  "projectileBossLoop [] kept g = g\<lparr>projectiles := kept\<rparr>"
| "projectileBossLoop (p # todo) kept g =
     (case boss g of
        None \<Rightarrow> g\<lparr>projectiles := rev (p # todo) @ kept\<rparr>
      | Some b \<Rightarrow>
          if p_isDestroyed p then projectileBossLoop todo (p # kept) g
          else if distanceTo (p_pos p) (b_pos b) < 3.0
               then (case boss_takeDamage (p_damage p) b of
                       (b1, died) \<Rightarrow>
                         if died
                         then triggerVictory (g\<lparr>boss := Some b1, projectiles := rev todo @ kept\<rparr>)
                         else projectileBossLoop todo kept (g\<lparr>boss := Some b1\<rparr>))
               else projectileBossLoop todo (p # kept) g)"

definition projectileBossPass :: "GameManager \<Rightarrow> GameManager" where
  "projectileBossPass g = projectileBossLoop (rev (projectiles g)) [] g"

definition checkBossCollisions :: "real \<Rightarrow> GameManager \<Rightarrow> GameManager" where
  "checkBossCollisions dt g =
     (case boss g of
        None \<Rightarrow> g
      | Some b \<Rightarrow> if b_isDestroyed b then g
                  else projectileBossPass (playerBossContact dt b g))"

definition touching :: "GameManager \<Rightarrow> Enemy list" where
  "touching g =
     filter (\<lambda>e. distanceTo (pl_pos (player g)) (e_pos e) < collisionDist g)
            (enemies (enemySpawner g))"

definition checkPlayerEnemyCollisions :: "real \<Rightarrow> GameManager \<Rightarrow> GameManager" where
  "checkPlayerEnemyCollisions dt g =
     (let g1 = g\<lparr>contactDmgTimer := contactDmgTimer g + dt\<rparr>;
          inContact = (touching g1 \<noteq> []);
          totalDmg = sum_list (map e_contactDamage (touching g1))
      in if inContact \<and> contactDmgTimer g1 \<ge> contactDmgInterval g1
         then (case takeDamage totalDmg (player g1) of
                 (p, dead) \<Rightarrow>
                   let g2 = g1\<lparr>contactDmgTimer := 0, player := p\<rparr>
                   in if dead then gameOver g2 else g2)
         else g1)"

text \<open>
  The inner loop of \<^verbatim>\<open>checkProjectileEnemyCollisions\<close>: the index of the first enemy,
  from the last index down, that is not destroyed and lies within the hit distance.
\<close>

definition hitIndex :: "real \<Rightarrow> Projectile \<Rightarrow> Enemy list \<Rightarrow> nat option" where
  "hitIndex hitDist p es =
     find (\<lambda>j. \<not> e_isDestroyed (es ! j) \<and> distanceTo (p_pos p) (e_pos (es ! j)) < hitDist)
          (rev [0 ..< length es])"

text \<open>
  What the body of the inner loop does on a hit of enemy \<open>j\<close>. The enemy that died is
  removed by \<^verbatim>\<open>removeEnemy(e)\<close>, which looks up the object \<open>e = enemies[j]\<close>; an object
  is in the array once, so index \<open>j\<close> goes. The projectile is spliced out by the caller.
\<close>

definition resolveHit :: "Projectile \<Rightarrow> nat \<Rightarrow> GameManager \<Rightarrow> GameManager" where
  "resolveHit p j g =
     (let es = enemies (enemySpawner g)
      in case enemy_takeDamage (p_damage p) (es ! j) of
           (e1, died) \<Rightarrow>
             if died
             then spawnGem (e_pos e1) (e_xpValue e1)
                    (updateScore 10
                       (g\<lparr>enemySpawner := (enemySpawner g)\<lparr>enemies := take j es @ drop (Suc j) es\<rparr>\<rparr>))
             else g\<lparr>enemySpawner := (enemySpawner g)\<lparr>enemies := es[j := e1]\<rparr>\<rparr>)"

text \<open>
  The body of the outer loop, for one projectile: \<open>kept\<close> holds the projectiles
  already visited that stay, in array order. On a hit the inner loop ends with
  \<^verbatim>\<open>break\<close>, after the projectile was spliced out.
\<close>

definition projectileEnemyStep ::
  "Projectile \<Rightarrow> Projectile list \<Rightarrow> GameManager \<Rightarrow> Projectile list \<times> GameManager" where
  "projectileEnemyStep p kept g =
     (if p_isDestroyed p then (p # kept, g)
      else (case hitIndex (projectileHitDist g) p (enemies (enemySpawner g)) of
              None \<Rightarrow> (p # kept, g)
            | Some j \<Rightarrow> (kept, resolveHit p j g)))"

text \<open>The outer loop runs from the last index down: \<open>todo\<close> is last index first.\<close>

fun projectileEnemyLoop :: "Projectile list \<Rightarrow> Projectile list \<Rightarrow> GameManager \<Rightarrow> GameManager" where
  "projectileEnemyLoop [] kept g = g\<lparr>projectiles := kept\<rparr>"
| "projectileEnemyLoop (p # todo) kept g =
     (case projectileEnemyStep p kept g of (kept1, g1) \<Rightarrow> projectileEnemyLoop todo kept1 g1)"

definition checkProjectileEnemyCollisions :: "GameManager \<Rightarrow> GameManager" where
  "checkProjectileEnemyCollisions g = projectileEnemyLoop (rev (projectiles g)) [] g"

text \<open>The gems are visited in array order; \<open>seen\<close> holds the visited ones.\<close>

fun gemLoop :: "ExperienceGem list \<Rightarrow> ExperienceGem list \<Rightarrow> GameManager \<Rightarrow> GameManager" where
  "gemLoop [] seen g = g\<lparr>experienceGems := seen\<rparr>"
| "gemLoop (x # todo) seen g =
     (if \<not> g_isCollected x \<and> distanceTo (pl_pos (player g)) (g_pos x) < gemCollectDist g
      then gemLoop todo (seen @ [gem_collect x]) (gm_gainXp (g_xpValue x) g)
      else gemLoop todo (seen @ [x]) g)"

definition checkGemCollections :: "GameManager \<Rightarrow> GameManager" where
  "checkGemCollections g = gemLoop (experienceGems g) [] g"

subsection \<open>The frame\<close>

text \<open>
  \<^verbatim>\<open>GameManager.update\<close>, in three parts that follow the source top to bottom:
  the entity updates up to the boss spawn check, the block guarded by
  \<^verbatim>\<open>this.boss && !this.boss.isDestroyed\<close>, and the slow-motion timer; then the three
  remaining collision checks. \<open>dt\<close> is \<^verbatim>\<open>this.time.deltaTime\<close>.
\<close>

definition update_entities :: "real \<Rightarrow> InputManager \<Rightarrow> real \<Rightarrow> GameManager \<Rightarrow> GameManager" where
  "update_entities dt im now g =
     (let g1 = g\<lparr>waveManager := wave_update dt (waveManager g)\<rparr>
      in case Player_update dt im (enemies (enemySpawner g1)) (player g1) of
           (p1, shots) \<Rightarrow>
      let g2 = g1\<lparr>player := p1, projectiles := projectiles g1 @ shots\<rparr>
      in case spawner_update dt (randoms g2) (drawn g2) (waveManager g2) (pl_pos (player g2))
                (enemySpawner g2) of
           (sp, k) \<Rightarrow>
      let g3 = g2\<lparr>enemySpawner := sp, drawn := k\<rparr>
      in case skills_update dt now (randoms g3) (drawn g3) (pl_pos (player g3))
                (enemies (enemySpawner g3)) (skillManager (player g3)) of
           (sm, es, k2, results) \<Rightarrow>
      let g4 = g3\<lparr>player := (player g3)\<lparr>skillManager := sm\<rparr>,
                  enemySpawner := (enemySpawner g3)\<lparr>enemies := es\<rparr>, drawn := k2\<rparr>;
          g5 = process_skill_results es results g4;
          g6 = updateGems dt (updateProjectiles dt g5)
      in if \<not> bossSpawned g6 \<and> gameTime (waveManager g6) \<ge> bossSpawnTime g6
         then spawnBoss g6 else g6)"

definition update_boss :: "real \<Rightarrow> GameManager \<Rightarrow> GameManager" where
  "update_boss dt g =
     (case boss g of
        None \<Rightarrow> g
      | Some b \<Rightarrow>
          if b_isDestroyed b then g
          else checkBossCollisions dt
                 (g\<lparr>boss := Some (Boss_update (dt * slowMoScale g) (pl_pos (player g)) b)\<rparr>))"

definition update_slowMo :: "real \<Rightarrow> GameManager \<Rightarrow> GameManager" where
  "update_slowMo dt g =
     (if slowMoTimer g > 0
      then let g1 = g\<lparr>slowMoTimer := slowMoTimer g - dt\<rparr>
           in if slowMoTimer g1 \<le> 0 then showVictoryScreen (g1\<lparr>slowMoScale := 1.0\<rparr>) else g1
      else g)"

definition update :: "real \<Rightarrow> InputManager \<Rightarrow> real \<Rightarrow> GameManager \<Rightarrow> GameManager" where
  "update dt im now g =
     checkGemCollections
       (checkProjectileEnemyCollisions
          (checkPlayerEnemyCollisions dt
             (update_slowMo dt (update_boss dt (update_entities dt im now g)))))"

text \<open>
  \<^verbatim>\<open>animate\<close>: one turn of the frame loop. \<open>dt\<close> is the delta that \<^verbatim>\<open>time.update()\<close>
  measures, whether or not the simulation then runs.
\<close>

definition animate :: "real \<Rightarrow> InputManager \<Rightarrow> real \<Rightarrow> GameManager \<Rightarrow> GameManager" where
  "animate dt im now g =
     (if isGameOver g \<and> \<not> isVictory g then g
      else if \<not> isPaused g then update dt im now g else g)"

text \<open>
  The motion half of the boss block, on its own: \<^verbatim>\<open>this.boss.update(dt * this.slowMoScale)\<close>
  under the guard of the block.
\<close>

definition boss_motion :: "real \<Rightarrow> GameManager \<Rightarrow> GameManager" where
  "boss_motion dt g =
     (case boss g of
        None \<Rightarrow> g
      | Some b \<Rightarrow>
          if b_isDestroyed b then g
          else g\<lparr>boss := Some (Boss_update (dt * slowMoScale g) (pl_pos (player g)) b)\<rparr>)"

text \<open>
  The frame as the specification words it, for comparison with \<open>update\<close>: all entity
  motion first, then the collision resolver in the order player-enemy contact,
  player-boss contact, projectile-enemy, projectile-boss, player-gem, and the state
  machine (the slow-motion timer) last.
\<close>

definition update_spec_order :: "real \<Rightarrow> InputManager \<Rightarrow> real \<Rightarrow> GameManager \<Rightarrow> GameManager" where
  "update_spec_order dt im now g =
     (let m = boss_motion dt (update_entities dt im now g);
          c1 = checkPlayerEnemyCollisions dt m;
          c2 = (case boss c1 of
                  None \<Rightarrow> c1
                | Some b \<Rightarrow> if b_isDestroyed b then c1 else playerBossContact dt b c1);
          c3 = checkProjectileEnemyCollisions c2;
          c4 = (case boss c3 of
                  None \<Rightarrow> c3
                | Some b \<Rightarrow> if b_isDestroyed b then c3 else projectileBossPass c3);
          c5 = checkGemCollections c4
      in update_slowMo dt c5)"

definition applyUpgrade :: "string \<Rightarrow> GameManager \<Rightarrow> GameManager" where
  "applyUpgrade ident g =
     (if ident = ''pistol'' then g\<lparr>player := switchWeapon ''pistol'' (upgradePistol (player g))\<rparr>
      else if ident = ''shotgun''
           then g\<lparr>player := switchWeapon ''shotgun'' (upgradeShotgun (player g))\<rparr>
      else if ident = ''orbital'' then g\<lparr>player := player_addSkill ''orbital'' (player g)\<rparr>
      else if ident = ''thunder'' then g\<lparr>player := player_addSkill ''thunder'' (player g)\<rparr>
      else if ident = ''heal'' then g\<lparr>player := healPercent 50 (player g)\<rparr>
      else g)"

text \<open>The call-back of the level-up menu, run when the user picks an upgrade.\<close>

definition selectUpgrade :: "string \<Rightarrow> GameManager \<Rightarrow> GameManager" where
  "selectUpgrade ident g = (applyUpgrade ident g)\<lparr>isPaused := False, levelUpMenuShown := False\<rparr>"

section \<open>Properties of a frame\<close>

text \<open>
  \<open>enemies_kept es' es\<close>: every enemy of \<open>es'\<close> is an enemy of \<open>es\<close>, the same object
  at the same position.
\<close>

definition enemies_kept :: "Enemy list \<Rightarrow> Enemy list \<Rightarrow> bool" where
  "enemies_kept es' es =
     list_all (\<lambda>e. list_ex (\<lambda>e0. e_id e = e_id e0 \<and> e_pos e = e_pos e0) es) es'"

text \<open>The position of the boss, when there is one.\<close>

definition boss_position :: "GameManager \<Rightarrow> vec3 option" where
  "boss_position g = (case boss g of None \<Rightarrow> None | Some b \<Rightarrow> Some (b_pos b))"

text \<open>
  \<open>noneDestroyed es\<close>: no enemy of the array is marked destroyed. \<^verbatim>\<open>Enemy.destroy\<close> is
  called by \<^verbatim>\<open>removeEnemy\<close> only, which splices the enemy out of the array in the same
  statement.
\<close>

definition noneDestroyed :: "Enemy list \<Rightarrow> bool" where
  "noneDestroyed es = list_all (\<lambda>e. \<not> e_isDestroyed e) es"

section \<open>Sample inputs\<close>

text \<open>Concrete inputs and states at which the theorems below are evaluated.\<close>

definition keys_diag :: InputManager where
  "keys_diag = \<lparr>key_w = False, key_a = False, key_s = True, key_d = True,
                 joystickActive = False, joystick_x = 0, joystick_y = 0\<rparr>"

definition keys_none :: InputManager where
  "keys_none = \<lparr>key_w = False, key_a = False, key_s = False, key_d = False,
                 joystickActive = False, joystick_x = 0, joystick_y = 0\<rparr>"

definition joystick_soft :: InputManager where
  "joystick_soft = \<lparr>key_w = False, key_a = False, key_s = False, key_d = False,
                     joystickActive = True, joystick_x = 0.3, joystick_y = 0.4\<rparr>"

definition rnd_zero :: "nat \<Rightarrow> real" where
  "rnd_zero k = 0"


definition dead_enemy :: Enemy where
  "dead_enemy = enemy_destroy (enemy_start (vec 5 0 0) 1 (new_Enemy 0 Normal))"

definition live_enemy :: Enemy where
  "live_enemy = enemy_start (vec 5 0 0) 1 (new_Enemy 1 Normal)"

definition ready_thunder :: ThunderStrike where
  "ready_thunder = (thunder_start new_ThunderStrike)\<lparr>ts_timer := 3\<rparr>"

definition tank_at :: "nat \<Rightarrow> vec3 \<Rightarrow> Enemy" where
  "tank_at i pos = enemy_start pos 1 (new_Enemy i Tank)"

definition pistol_game :: GameManager where
  "pistol_game =
     (new_GameManager rnd_zero)
       \<lparr>enemySpawner := new_EnemySpawner
          \<lparr>enemies := [tank_at 0 (vec 0.5 0 0), tank_at 1 (vec 0 0 0.5)], nextId := 2\<rparr>,
        projectiles := fire (new_Weapon ''pistol'') (vec 0 1 0) (vec 0 0.75 0.5)\<rparr>"

definition contact_game :: GameManager where
  "contact_game =
     (new_GameManager rnd_zero)
       \<lparr>waveManager := \<lparr>gameTime = 75, healthMult = 1.5, spawnMult = 0.8\<rparr>,
        enemySpawner := new_EnemySpawner
          \<lparr>enemies := [enemy_start (vec 0 0 0) 1 (new_Enemy 0 Normal)], nextId := 1\<rparr>,
        boss := Some (boss_start (vec 0 0 0) new_Boss), bossSpawned := True,
        contactDmgTimer := 0.49\<rparr>"

definition keys_right :: InputManager where
  "keys_right = \<lparr>key_w = False, key_a = False, key_s = False, key_d = True,
                  joystickActive = False, joystick_x = 0, joystick_y = 0\<rparr>"

text \<open>
  A game 75 seconds in: the boss, 10 units from the player and down to its last point of
  health, and a pistol projectile flying towards it that reaches it in the next frame.
\<close>

definition boss_dying_game :: GameManager where
  "boss_dying_game =
     (new_GameManager rnd_zero)
       \<lparr>waveManager := \<lparr>gameTime = 75, healthMult = 1.5, spawnMult = 0.8\<rparr>,
        projectiles := [(new_Projectile 1 0xffff00)\<lparr>p_pos := vec 8 1 0, p_direction := vec 1 0 0\<rparr>],
        boss := Some ((boss_start (vec 10 0 0) new_Boss)\<lparr>b_health := 1\<rparr>),
        bossSpawned := True\<rparr>"

text \<open>
  The frame in which that projectile kills the boss, and the state after the user has
  answered the level-up menu that the boss's experience opens.
\<close>

definition victory_frame :: GameManager where
  "victory_frame = update (1 / 50) keys_none 0 boss_dying_game"

definition victory_resumed :: GameManager where
  "victory_resumed = selectUpgrade ''heal'' victory_frame"

text \<open>
  The state of that game after the motion of the next frame, and the boss as it has
  moved there.
\<close>

definition dyingM :: GameManager where
  "dyingM = boss_motion (1 / 50) (update_entities (1 / 50) keys_none 0 boss_dying_game)"

definition dyingB :: Boss where
  "dyingB = (boss_start (vec 10 0 0) new_Boss)
              \<lparr>b_health := 1, b_direction := vec (- 1) 0 0, b_pos := vec (997 / 100) 2 0\<rparr>"

section \<open>Theorems: weapon upgrades and wave multipliers\<close>

lemma wave_run_snoc: "wave_run (dts @ [dt]) w = wave_update dt (wave_run dts w)"
  by (simp add: wave_run_def)

lemma wave_run_gameTime: "gameTime (wave_run dts w) = gameTime w + sum_list dts"
proof (induction dts rule: rev_induct)
  case Nil
  show ?case by (simp add: wave_run_def)
next
  case (snoc dt dts)
  then show ?case by (simp add: wave_run_snoc wave_update_def Let_def)
qed

text \<open>
  C7. After every run of frames from a fresh wave manager, the elapsed time \<open>t\<close> is the
  sum of the frame deltas, the health multiplier is \<open>1 + floor (t / 60) * 0.5\<close> and
  the spawn multiplier is \<open>max 0.3 (1 - floor (t / 30) * 0.1)\<close>; and a frame with a
  non-negative delta never decreases the elapsed time.
\<close>

theorem wave_multipliers:
  "gameTime (wave_run dts new_WaveManager) = sum_list dts
   \<and> healthMult (wave_run dts new_WaveManager)
       = 1 + of_int \<lfloor>gameTime (wave_run dts new_WaveManager) / 60\<rfloor> * 0.5
   \<and> spawnMult (wave_run dts new_WaveManager)
       = max 0.3 (1 - of_int \<lfloor>gameTime (wave_run dts new_WaveManager) / 30\<rfloor> * 0.1)
   \<and> (0 \<le> dt \<longrightarrow> gameTime (wave_run dts new_WaveManager)
                    \<le> gameTime (wave_update dt (wave_run dts new_WaveManager)))"
proof (cases dts rule: rev_cases)
  case Nil
  then show ?thesis
    by (simp add: wave_run_def new_WaveManager_def wave_update_def Let_def)
next
  case (snoc ys y)
  then show ?thesis
    by (simp add: wave_run_snoc wave_run_gameTime new_WaveManager_def wave_update_def Let_def)
qed

theorem wave_multipliers_witness:
  "(0::real) \<le> 30
   \<and> gameTime (wave_run [45, 50] new_WaveManager) = 95
   \<and> healthMult (wave_run [45, 50] new_WaveManager) = 1.5
   \<and> spawnMult (wave_run [45, 50] new_WaveManager) = 0.7
   \<and> gameTime (wave_run [45, 50] new_WaveManager)
       \<le> gameTime (wave_update 30 (wave_run [45, 50] new_WaveManager))"
  using wave_multipliers [of "[45, 50]" 30] by simp

lemma Suc_mod2_zero: "(Suc n mod 2 = 0) = odd n"
  by presburger

lemma upgrade_level: "w_level (upgrade w) = w_level w + 1"
  by (simp add: upgrade_def Let_def)

lemma upgrade_pistol:
  "w_type w = ''pistol'' \<Longrightarrow>
   fireRate (upgrade w) = fireRate w * 0.85 \<and> w_damage (upgrade w) = w_damage w * 1.1
   \<and> projectileCount (upgrade w) = projectileCount w"
  by (simp add: upgrade_def Let_def)

lemma upgrade_shotgun_even:
  "w_type w \<noteq> ''pistol'' \<Longrightarrow> even (w_level (upgrade w)) \<Longrightarrow>
   projectileCount (upgrade w) = projectileCount w + 1
   \<and> w_damage (upgrade w) = w_damage w \<and> fireRate (upgrade w) = fireRate w"
  unfolding upgrade_level by (simp add: upgrade_def Let_def Suc_mod2_zero)

lemma upgrade_shotgun_odd:
  "w_type w \<noteq> ''pistol'' \<Longrightarrow> odd (w_level (upgrade w)) \<Longrightarrow>
   w_damage (upgrade w) = w_damage w * 1.2
   \<and> projectileCount (upgrade w) = projectileCount w \<and> fireRate (upgrade w) = fireRate w"
  unfolding upgrade_level by (simp add: upgrade_def Let_def Suc_mod2_zero)

text \<open>
  C8. Upgrading the pistol multiplies its fire interval by 0.85 and its damage by 1.1;
  upgrading the shotgun adds one projectile when the level it reaches is even and
  multiplies its damage by 1.2 when the level it reaches is odd. Every upgrade raises
  the level by one.
\<close>

theorem weapon_upgrade:
  "w_level (upgrade w) = w_level w + 1
   \<and> (w_type w = ''pistol'' \<longrightarrow>
        fireRate (upgrade w) = fireRate w * 0.85 \<and> w_damage (upgrade w) = w_damage w * 1.1
        \<and> projectileCount (upgrade w) = projectileCount w)
   \<and> (w_type w \<noteq> ''pistol'' \<and> even (w_level (upgrade w)) \<longrightarrow>
        projectileCount (upgrade w) = projectileCount w + 1
        \<and> w_damage (upgrade w) = w_damage w \<and> fireRate (upgrade w) = fireRate w)
   \<and> (w_type w \<noteq> ''pistol'' \<and> odd (w_level (upgrade w)) \<longrightarrow>
        w_damage (upgrade w) = w_damage w * 1.2
        \<and> projectileCount (upgrade w) = projectileCount w \<and> fireRate (upgrade w) = fireRate w)"
  using upgrade_level [of w] upgrade_pistol [of w] upgrade_shotgun_even [of w]
        upgrade_shotgun_odd [of w]
  by blast

theorem weapon_upgrade_witness:
  "w_type (new_Weapon ''pistol'') = ''pistol''
   \<and> fireRate (upgrade (new_Weapon ''pistol'')) = 0.425
   \<and> w_damage (upgrade (new_Weapon ''pistol'')) = 1.1
   \<and> w_type (new_Weapon ''shotgun'') \<noteq> ''pistol''
   \<and> even (w_level (upgrade (new_Weapon ''shotgun'')))
   \<and> projectileCount (upgrade (new_Weapon ''shotgun'')) = 4
   \<and> w_damage (upgrade (new_Weapon ''shotgun'')) = 1.5
   \<and> odd (w_level (upgrade (upgrade (new_Weapon ''shotgun''))))
   \<and> projectileCount (upgrade (upgrade (new_Weapon ''shotgun''))) = 4
   \<and> w_damage (upgrade (upgrade (new_Weapon ''shotgun''))) = 1.8"
  using weapon_upgrade [of "new_Weapon ''pistol''"]
        weapon_upgrade [of "new_Weapon ''shotgun''"]
        weapon_upgrade [of "upgrade (new_Weapon ''shotgun'')"]
  by (simp add: new_Weapon_def upgrade_def Let_def)

section \<open>Theorems: movement\<close>

lemma lengthSq_nonneg: "0 \<le> lengthSq v"
  by (simp add: lengthSq_def)

lemma vlength_nonneg: "0 \<le> vlength v"
  by (simp add: vlength_def lengthSq_nonneg)

lemma vlength_pos_iff: "(0 < vlength v) = (lengthSq v \<noteq> 0)"
  using lengthSq_nonneg [of v] by (auto simp: vlength_def)

lemma vlength_zero_iff: "(vlength v = 0) = (lengthSq v = 0)"
  by (simp add: vlength_def)

lemma sqrt_less_iff_sq: "0 < r \<Longrightarrow> 0 \<le> x \<Longrightarrow> (sqrt x < r) = (x < r * r)"
  by (metis abs_of_pos real_sqrt_abs2 real_sqrt_less_iff)

lemma distanceTo_less_iff:
  "0 < r \<Longrightarrow> (distanceTo a b < r) = (lengthSq (subVectors a b) < r * r)"
  by (simp add: distanceTo_def vlength_def sqrt_less_iff_sq lengthSq_nonneg)

lemma sq_sum_zero_iff: "(a * a + b * b = (0::real)) = (a = 0 \<and> b = 0)"
  by (simp add: sum_squares_eq_zero_iff)

lemma sq_sum_pos_iff: "(0 < a * a + b * b) = (a \<noteq> 0 \<or> b \<noteq> (0::real))"
  by (rule sum_squares_gt_zero_iff)

lemma handleMovement_disp:
  assumes mv: "getMovementVector im = (mx, mz)"
  shows "vx (pl_pos (handleMovement dt im p)) - vx (pl_pos p)
           = (if mx = 0 \<and> mz = 0 then 0 else mx / sqrt (mx * mx + mz * mz) * moveSpeed p * dt)"
    and "vz (pl_pos (handleMovement dt im p)) - vz (pl_pos p)
           = (if mx = 0 \<and> mz = 0 then 0 else mz / sqrt (mx * mx + mz * mz) * moveSpeed p * dt)"
    and "vy (pl_pos (handleMovement dt im p)) = vy (pl_pos p)"
  using mv
  by (simp_all add: handleMovement_def Let_def vlength_pos_iff vlength_def lengthSq_def vec_def
        normalizeV_def divideScalar_def sq_sum_zero_iff sq_sum_pos_iff)

lemma unit_scaled:
  assumes nz: "\<not> (mx = 0 \<and> mz = (0::real))" and c: "0 \<le> c"
  shows "sqrt ((mx / sqrt (mx * mx + mz * mz) * c) * (mx / sqrt (mx * mx + mz * mz) * c)
             + (mz / sqrt (mx * mx + mz * mz) * c) * (mz / sqrt (mx * mx + mz * mz) * c)) = c"
proof -
  define l where "l = sqrt (mx * mx + mz * mz)"
  have pos: "0 < mx * mx + mz * mz"
    using nz by (auto simp: sq_sum_pos_iff)
  have l2: "l * l = mx * mx + mz * mz"
    unfolding l_def using pos by (metis abs_of_pos real_sqrt_mult_self)
  have lnz: "l \<noteq> 0" using l2 pos by auto
  have "(mx / l * c) * (mx / l * c) + (mz / l * c) * (mz / l * c)
          = (mx * mx + mz * mz) / (l * l) * (c * c)"
    using lnz by (simp add: field_simps)
  also have "\<dots> = c * c"
    using lnz by (simp add: l2 [symmetric])
  finally have "sqrt ((mx / l * c) * (mx / l * c) + (mz / l * c) * (mz / l * c)) = c"
    using c by simp
  then show ?thesis by (simp only: l_def)
qed

lemma handleMovement_zero:
  "getMovementVector im = (0, 0) \<Longrightarrow> pl_pos (handleMovement dt im p) = pl_pos p"
  by (simp add: handleMovement_def vec_def vlength_def lengthSq_def)

lemma handleMovement_normalized:
  assumes "0 \<le> dt" and "0 \<le> moveSpeed p" and "getMovementVector im = (mx, mz)"
  shows "(\<not> (mx = 0 \<and> mz = 0) \<longrightarrow>
            sqrt ((vx (pl_pos (handleMovement dt im p)) - vx (pl_pos p))
                    * (vx (pl_pos (handleMovement dt im p)) - vx (pl_pos p))
                  + (vz (pl_pos (handleMovement dt im p)) - vz (pl_pos p))
                    * (vz (pl_pos (handleMovement dt im p)) - vz (pl_pos p)))
              = moveSpeed p * dt)
       \<and> (mx = 0 \<and> mz = 0 \<longrightarrow> pl_pos (handleMovement dt im p) = pl_pos p)
       \<and> vy (pl_pos (handleMovement dt im p)) = vy (pl_pos p)"
proof -
  have c: "0 \<le> moveSpeed p * dt" using assms by simp
  show ?thesis
    using unit_scaled [of mx mz "moveSpeed p * dt"] c
    using handleMovement_zero [of im dt p] assms(3)
    by (auto simp: handleMovement_disp [OF assms(3)] mult.assoc)
qed

section \<open>Theorems: player health and experience\<close>








text \<open>
  C5 (amended). A call of \<^verbatim>\<open>gainXp\<close> that brings the accumulated experience to the
  threshold resolves exactly one level: the level goes up by one, the threshold is
  subtracted from the experience, and the threshold becomes the floor of itself times
  the scaling factor. Afterwards the experience is below the new threshold exactly when
  the accumulated experience was below the sum of the old and the new threshold; with
  threshold 20, gaining 25 at level 1 gives level 2, experience 5 and threshold 30.
\<close>

theorem gainXp_level_up:
  assumes "xpToNextLevel p \<le> currentXp p + amt"
  shows "snd (gainXp amt p)
         \<and> pl_level (fst (gainXp amt p)) = pl_level p + 1
         \<and> currentXp (fst (gainXp amt p)) = currentXp p + amt - xpToNextLevel p
         \<and> xpToNextLevel (fst (gainXp amt p)) = of_int \<lfloor>xpToNextLevel p * xpScaling p\<rfloor>
         \<and> (currentXp (fst (gainXp amt p)) < xpToNextLevel (fst (gainXp amt p))
              \<longleftrightarrow> currentXp p + amt < xpToNextLevel p + of_int \<lfloor>xpToNextLevel p * xpScaling p\<rfloor>)"
  using assms by (auto simp: gainXp_def Let_def)

theorem gainXp_level_up_witness:
  "xpToNextLevel new_Player \<le> currentXp new_Player + 25
   \<and> xpToNextLevel new_Player = 20 \<and> pl_level new_Player = 1
   \<and> snd (gainXp 25 new_Player)
   \<and> pl_level (fst (gainXp 25 new_Player)) = 2
   \<and> currentXp (fst (gainXp 25 new_Player)) = 5
   \<and> xpToNextLevel (fst (gainXp 25 new_Player)) = 30
   \<and> currentXp (fst (gainXp 25 new_Player)) < xpToNextLevel (fst (gainXp 25 new_Player))"
proof -
  have a: "xpToNextLevel new_Player \<le> currentXp new_Player + 25" by (simp add: new_Player_def)
  show ?thesis
    using gainXp_level_up [OF a] a by (simp add: new_Player_def)
qed

text \<open>
  C5 as stated fails: the 500 experience of the boss, gained at level 1, leaves 480
  experience against a threshold of 30.
\<close>

theorem gainXp_overflow_counterexample:
  "snd (gainXp 500 new_Player)
   \<and> currentXp (fst (gainXp 500 new_Player)) = 480
   \<and> xpToNextLevel (fst (gainXp 500 new_Player)) = 30
   \<and> \<not> currentXp (fst (gainXp 500 new_Player)) < xpToNextLevel (fst (gainXp 500 new_Player))"
  by (simp add: gainXp_def new_Player_def Let_def)

section \<open>Theorems: ThunderStrike\<close>

lemma random_index_in_range:
  assumes "0 \<le> r" and "r < 1" and "0 < n"
  shows "nat \<lfloor>r * real n\<rfloor> < n"
proof -
  have "r * real n < real n" using assms by simp
  then have "\<lfloor>r * real n\<rfloor> < int n" by (simp add: floor_less_iff)
  moreover have "0 \<le> \<lfloor>r * real n\<rfloor>" using assms by simp
  ultimately show ?thesis by linarith
qed

lemma validEnemies_nonempty_length: "validEnemies es \<noteq> [] \<Longrightarrow> 0 < length es"
  by (cases es) (simp_all add: validEnemies_def)

lemma thunder_idle:
  assumes "ts_isActive t" and "cooldown t \<le> ts_timer t + dt" and "validEnemies es = []"
  shows "thunder_update dt rnd k es t =
           (t\<lparr>lightningBolts := age_bolts dt (lightningBolts t),
              ts_timer := (if es = [] then ts_timer t + dt else 0)\<rparr>, es, k, None)"
  using assms by (simp add: thunder_update_def Let_def)

lemma thunder_fire:
  assumes "ts_isActive t" and "cooldown t \<le> ts_timer t + dt" and "validEnemies es \<noteq> []"
    and "0 \<le> rnd k" and "rnd k < 1"
  shows "\<exists>i \<in> set (validEnemies es).
           fst (snd (thunder_update dt rnd k es t))
             = es[i := fst (enemy_takeDamage (ts_damage t) (es ! i))]
           \<and> ts_timer (fst (thunder_update dt rnd k es t)) = 0"
proof -
  let ?n = "nat \<lfloor>rnd k * real (length (validEnemies es))\<rfloor>"
  have n: "?n < length (validEnemies es)"
    using assms by (intro random_index_in_range) simp_all
  have len: "0 < length es" using assms(3) by (rule validEnemies_nonempty_length)
  have "fst (snd (thunder_update dt rnd k es t))
          = es[validEnemies es ! ?n := fst (enemy_takeDamage (ts_damage t) (es ! (validEnemies es ! ?n)))]
        \<and> ts_timer (fst (thunder_update dt rnd k es t)) = 0"
    using assms n len by (simp add: thunder_update_def Let_def split: prod.splits)
  moreover have "validEnemies es ! ?n \<in> set (validEnemies es)" using n by simp
  ultimately show ?thesis by blast
qed

section \<open>Theorems: projectiles against enemies\<close>

lemma find_SomeD: "find P xs = Some x \<Longrightarrow> P x \<and> x \<in> set xs"
  by (induction xs) (auto split: if_splits)

lemma hitIndex_Some:
  assumes "hitIndex d p es = Some j"
  shows "j < length es \<and> \<not> e_isDestroyed (es ! j) \<and> distanceTo (p_pos p) (e_pos (es ! j)) < d"
  using find_SomeD [OF assms [unfolded hitIndex_def]] by simp

lemma hitIndex_None:
  "(hitIndex d p es = None)
     = (\<not> (\<exists>j < length es. \<not> e_isDestroyed (es ! j) \<and> distanceTo (p_pos p) (e_pos (es ! j)) < d))"
  unfolding hitIndex_def by (auto simp: find_None_iff)

lemma resolveHit_enemies:
  "enemies (enemySpawner (resolveHit p j g))
     = (if e_health (enemies (enemySpawner g) ! j) - p_damage p \<le> 0
        then take j (enemies (enemySpawner g)) @ drop (Suc j) (enemies (enemySpawner g))
        else (enemies (enemySpawner g))
               [j := fst (enemy_takeDamage (p_damage p) (enemies (enemySpawner g) ! j))])"
  by (simp add: resolveHit_def Let_def enemy_takeDamage_def spawnGem_def updateScore_def)

lemma fire_live: "q \<in> set (fire w a b) \<Longrightarrow> \<not> p_isDestroyed q \<and> p_damage q = w_damage w"
  by (auto simp: fire_def Let_def projectile_start_def new_Projectile_def split: if_splits)

text \<open>
  C2 (amended). A projectile carries no pierce count, whichever weapon fired it. In
  the collision pass, the turn of a projectile that is not destroyed goes one of two
  ways. If no non-destroyed enemy lies within the hit distance, the projectile stays
  and nothing changes. Otherwise the projectile is removed on this first hit, and
  exactly one enemy is affected: the first one in range from the end of the array, which
  is removed if the damage kills it and damaged in place if not; every other enemy is
  left as it was. So at most one projectile-enemy pair is resolved per projectile per
  frame.
\<close>

theorem projectile_stops_at_first_hit:
  assumes live: "\<not> p_isDestroyed p"
  shows "(case hitIndex (projectileHitDist g) p (enemies (enemySpawner g)) of
            None \<Rightarrow> projectileEnemyStep p kept g = (p # kept, g)
          | Some j \<Rightarrow>
              fst (projectileEnemyStep p kept g) = kept
              \<and> j < length (enemies (enemySpawner g))
              \<and> \<not> e_isDestroyed (enemies (enemySpawner g) ! j)
              \<and> distanceTo (p_pos p) (e_pos (enemies (enemySpawner g) ! j)) < projectileHitDist g
              \<and> enemies (enemySpawner (snd (projectileEnemyStep p kept g)))
                  = (if e_health (enemies (enemySpawner g) ! j) - p_damage p \<le> 0
                     then take j (enemies (enemySpawner g)) @ drop (Suc j) (enemies (enemySpawner g))
                     else (enemies (enemySpawner g))
                            [j := fst (enemy_takeDamage (p_damage p) (enemies (enemySpawner g) ! j))]))"
proof -
  show ?thesis
  proof (cases "hitIndex (projectileHitDist g) p (enemies (enemySpawner g))")
    case None
    then show ?thesis using live by (simp add: projectileEnemyStep_def)
  next
    case (Some j)
    then show ?thesis
      using live hitIndex_Some [OF Some]
      by (simp add: projectileEnemyStep_def resolveHit_enemies)
  qed
qed

lemma pistol_game_projectiles:
  "length (projectiles pistol_game) = 1"
  "p_pos (hd (projectiles pistol_game)) = vec 0 1 0"
  "p_damage (hd (projectiles pistol_game)) = 1"
  "\<not> p_isDestroyed (hd (projectiles pistol_game))"
  by (simp_all add: pistol_game_def new_GameManager_def fire_def new_Weapon_def Let_def
        projectile_start_def new_Projectile_def vec_def)

lemma pistol_game_single: "projectiles pistol_game = [hd (projectiles pistol_game)]"
  using pistol_game_projectiles(1) by (cases "projectiles pistol_game") simp_all

lemma pistol_game_hitDist: "projectileHitDist pistol_game = 1"
  by (simp add: pistol_game_def new_GameManager_def)

lemma pistol_game_enemies:
  "enemies (enemySpawner pistol_game) = [tank_at 0 (vec 0.5 0 0), tank_at 1 (vec 0 0 0.5)]"
  by (simp add: pistol_game_def new_GameManager_def)

lemma tank_at_simps:
  "e_pos (tank_at i pos) = pos\<lparr>vy := 0.75\<rparr>" "e_health (tank_at i pos) = 10"
  "\<not> e_isDestroyed (tank_at i pos)"
  by (simp_all add: tank_at_def enemy_start_def new_Enemy_def Let_def)

lemma pistol_game_hitIndex:
  "hitIndex (projectileHitDist pistol_game) (hd (projectiles pistol_game))
     (enemies (enemySpawner pistol_game)) = Some 1"
  by (simp add: pistol_game_projectiles pistol_game_enemies pistol_game_hitDist hitIndex_def
        tank_at_simps distanceTo_less_iff lengthSq_def subVectors_def vec_def)

theorem projectile_stops_at_first_hit_witness:
  "\<not> p_isDestroyed (hd (projectiles pistol_game))
   \<and> hitIndex (projectileHitDist pistol_game) (hd (projectiles pistol_game))
        (enemies (enemySpawner pistol_game)) = Some 1
   \<and> map e_health (enemies (enemySpawner pistol_game)) = [10, 10]
   \<and> fst (projectileEnemyStep (hd (projectiles pistol_game)) [] pistol_game) = []
   \<and> map e_health (enemies (enemySpawner
            (snd (projectileEnemyStep (hd (projectiles pistol_game)) [] pistol_game)))) = [10, 9]"
proof -
  have live: "\<not> p_isDestroyed (hd (projectiles pistol_game))"
    by (simp add: pistol_game_projectiles)
  have step: "fst (projectileEnemyStep (hd (projectiles pistol_game)) [] pistol_game) = []
      \<and> enemies (enemySpawner (snd (projectileEnemyStep (hd (projectiles pistol_game)) [] pistol_game)))
          = (if e_health (enemies (enemySpawner pistol_game) ! 1)
                  - p_damage (hd (projectiles pistol_game)) \<le> 0
             then take 1 (enemies (enemySpawner pistol_game))
                  @ drop (Suc 1) (enemies (enemySpawner pistol_game))
             else (enemies (enemySpawner pistol_game))
                    [1 := fst (enemy_takeDamage (p_damage (hd (projectiles pistol_game)))
                                 (enemies (enemySpawner pistol_game) ! 1))])"
    using projectile_stops_at_first_hit
            [where p = "hd (projectiles pistol_game)" and g = pistol_game and kept = "[]", OF live]
    by (simp add: pistol_game_hitIndex)
  show ?thesis
    using live pistol_game_hitIndex step
    by (simp add: pistol_game_projectiles pistol_game_enemies tank_at_simps
          enemy_takeDamage_def Let_def)
qed

text \<open>
  C2 as stated fails: the projectile fired by the pistol, with two tanks in range, is
  removed by its first hit, which leaves one tank at 9 health and the other untouched.
\<close>

theorem pistol_no_pierce_counterexample:
  "projectiles pistol_game = fire (new_Weapon ''pistol'') (vec 0 1 0) (vec 0 0.75 0.5)
   \<and> length (projectiles pistol_game) = 1
   \<and> map e_health (enemies (enemySpawner pistol_game)) = [10, 10]
   \<and> projectiles (checkProjectileEnemyCollisions pistol_game) = []
   \<and> map e_health (enemies (enemySpawner (checkProjectileEnemyCollisions pistol_game)))
       = [10, 9]"
proof -
  have p: "projectiles pistol_game = fire (new_Weapon ''pistol'') (vec 0 1 0) (vec 0 0.75 0.5)"
    by (simp add: pistol_game_def new_GameManager_def)
  have step: "projectileEnemyStep (hd (projectiles pistol_game)) [] pistol_game
                = ([], resolveHit (hd (projectiles pistol_game)) 1 pistol_game)"
    by (simp add: projectileEnemyStep_def pistol_game_hitIndex pistol_game_projectiles)
  have pass: "checkProjectileEnemyCollisions pistol_game
                = (resolveHit (hd (projectiles pistol_game)) 1 pistol_game)\<lparr>projectiles := []\<rparr>"
    unfolding checkProjectileEnemyCollisions_def
    by (subst pistol_game_single) (simp add: step)
  have rest: "length (projectiles pistol_game) = 1
   \<and> map e_health (enemies (enemySpawner pistol_game)) = [10, 10]
   \<and> projectiles (checkProjectileEnemyCollisions pistol_game) = []
   \<and> map e_health (enemies (enemySpawner (checkProjectileEnemyCollisions pistol_game)))
       = [10, 9]"
    by (simp add: pass resolveHit_enemies pistol_game_projectiles pistol_game_enemies
          tank_at_simps enemy_takeDamage_def Let_def)
  show ?thesis by (rule conjI [OF p rest])
qed

section \<open>Theorems: what the collision passes leave unchanged\<close>

lemma updateScore_keeps [simp]:
  "waveManager (updateScore pts g) = waveManager g"
  "player (updateScore pts g) = player g"
  "enemySpawner (updateScore pts g) = enemySpawner g"
  "projectiles (updateScore pts g) = projectiles g"
  "experienceGems (updateScore pts g) = experienceGems g"
  "contactDmgTimer (updateScore pts g) = contactDmgTimer g"
  "contactDmgInterval (updateScore pts g) = contactDmgInterval g"
  "collisionDist (updateScore pts g) = collisionDist g"
  "projectileHitDist (updateScore pts g) = projectileHitDist g"
  "gemCollectDist (updateScore pts g) = gemCollectDist g"
  "boss (updateScore pts g) = boss g"
  "slowMoScale (updateScore pts g) = slowMoScale g"
  "slowMoTimer (updateScore pts g) = slowMoTimer g"
  "isVictory (updateScore pts g) = isVictory g"
  "isPaused (updateScore pts g) = isPaused g"
  "victoryShown (updateScore pts g) = victoryShown g"
  "score (updateScore pts g) = score g + pts"
  "kills (updateScore pts g) = kills g + 1"
  by (simp_all add: updateScore_def)

lemma gainXp_keeps [simp]:
  "pl_pos (fst (gainXp amt p)) = pl_pos p"
  "currentHealth (fst (gainXp amt p)) = currentHealth p"
  "maxHealth (fst (gainXp amt p)) = maxHealth p"
  "skillManager (fst (gainXp amt p)) = skillManager p"
  by (simp_all add: gainXp_def Let_def)

lemma gm_gainXp_keeps [simp]:
  "waveManager (gm_gainXp amt g) = waveManager g"
  "enemySpawner (gm_gainXp amt g) = enemySpawner g"
  "projectiles (gm_gainXp amt g) = projectiles g"
  "experienceGems (gm_gainXp amt g) = experienceGems g"
  "contactDmgTimer (gm_gainXp amt g) = contactDmgTimer g"
  "contactDmgInterval (gm_gainXp amt g) = contactDmgInterval g"
  "collisionDist (gm_gainXp amt g) = collisionDist g"
  "projectileHitDist (gm_gainXp amt g) = projectileHitDist g"
  "gemCollectDist (gm_gainXp amt g) = gemCollectDist g"
  "boss (gm_gainXp amt g) = boss g"
  "slowMoScale (gm_gainXp amt g) = slowMoScale g"
  "slowMoTimer (gm_gainXp amt g) = slowMoTimer g"
  "isVictory (gm_gainXp amt g) = isVictory g"
  "victoryShown (gm_gainXp amt g) = victoryShown g"
  "score (gm_gainXp amt g) = score g"
  "kills (gm_gainXp amt g) = kills g"
  "player (gm_gainXp amt g) = fst (gainXp amt (player g))"
  by (simp_all add: gm_gainXp_def triggerLevelUp_def split: prod.splits)

lemma gameOver_keeps [simp]:
  "waveManager (gameOver g) = waveManager g"
  "enemySpawner (gameOver g) = enemySpawner g"
  "projectiles (gameOver g) = projectiles g"
  "experienceGems (gameOver g) = experienceGems g"
  "contactDmgTimer (gameOver g) = contactDmgTimer g"
  "contactDmgInterval (gameOver g) = contactDmgInterval g"
  "collisionDist (gameOver g) = collisionDist g"
  "projectileHitDist (gameOver g) = projectileHitDist g"
  "gemCollectDist (gameOver g) = gemCollectDist g"
  "boss (gameOver g) = boss g"
  "slowMoScale (gameOver g) = slowMoScale g"
  "slowMoTimer (gameOver g) = slowMoTimer g"
  "isVictory (gameOver g) = isVictory g"
  "victoryShown (gameOver g) = victoryShown g"
  "score (gameOver g) = score g"
  "kills (gameOver g) = kills g"
  "pl_pos (player (gameOver g)) = pl_pos (player g)"
  "currentHealth (player (gameOver g)) = currentHealth (player g)"
  "currentXp (player (gameOver g)) = currentXp (player g)"
  by (simp_all add: gameOver_def)

lemma spawnGem_keeps [simp]:
  "waveManager (spawnGem pos xp g) = waveManager g"
  "player (spawnGem pos xp g) = player g"
  "enemySpawner (spawnGem pos xp g) = enemySpawner g"
  "projectiles (spawnGem pos xp g) = projectiles g"
  "contactDmgTimer (spawnGem pos xp g) = contactDmgTimer g"
  "contactDmgInterval (spawnGem pos xp g) = contactDmgInterval g"
  "collisionDist (spawnGem pos xp g) = collisionDist g"
  "projectileHitDist (spawnGem pos xp g) = projectileHitDist g"
  "gemCollectDist (spawnGem pos xp g) = gemCollectDist g"
  "boss (spawnGem pos xp g) = boss g"
  "slowMoScale (spawnGem pos xp g) = slowMoScale g"
  "slowMoTimer (spawnGem pos xp g) = slowMoTimer g"
  "isVictory (spawnGem pos xp g) = isVictory g"
  "isPaused (spawnGem pos xp g) = isPaused g"
  "victoryShown (spawnGem pos xp g) = victoryShown g"
  "score (spawnGem pos xp g) = score g"
  "kills (spawnGem pos xp g) = kills g"
  by (simp_all add: spawnGem_def Let_def)

lemma showVictoryScreen_keeps [simp]:
  "waveManager (showVictoryScreen g) = waveManager g"
  "enemySpawner (showVictoryScreen g) = enemySpawner g"
  "projectiles (showVictoryScreen g) = projectiles g"
  "experienceGems (showVictoryScreen g) = experienceGems g"
  "contactDmgTimer (showVictoryScreen g) = contactDmgTimer g"
  "contactDmgInterval (showVictoryScreen g) = contactDmgInterval g"
  "collisionDist (showVictoryScreen g) = collisionDist g"
  "projectileHitDist (showVictoryScreen g) = projectileHitDist g"
  "gemCollectDist (showVictoryScreen g) = gemCollectDist g"
  "boss (showVictoryScreen g) = boss g"
  "slowMoScale (showVictoryScreen g) = slowMoScale g"
  "slowMoTimer (showVictoryScreen g) = slowMoTimer g"
  "isVictory (showVictoryScreen g) = isVictory g"
  "score (showVictoryScreen g) = score g"
  "kills (showVictoryScreen g) = kills g"
  "pl_pos (player (showVictoryScreen g)) = pl_pos (player g)"
  "currentHealth (player (showVictoryScreen g)) = currentHealth (player g)"
  "currentXp (player (showVictoryScreen g)) = currentXp (player g)"
  "isPaused (showVictoryScreen g)"
  "victoryShown (showVictoryScreen g)"
  by (simp_all add: showVictoryScreen_def)

lemma triggerVictory_keeps [simp]:
  "waveManager (triggerVictory g) = waveManager g"
  "enemySpawner (triggerVictory g) = enemySpawner g"
  "projectiles (triggerVictory g) = projectiles g"
  "experienceGems (triggerVictory g) = experienceGems g"
  "contactDmgTimer (triggerVictory g) = contactDmgTimer g"
  "contactDmgInterval (triggerVictory g) = contactDmgInterval g"
  "collisionDist (triggerVictory g) = collisionDist g"
  "projectileHitDist (triggerVictory g) = projectileHitDist g"
  "gemCollectDist (triggerVictory g) = gemCollectDist g"
  "victoryShown (triggerVictory g) = victoryShown g"
  "pl_pos (player (triggerVictory g)) = pl_pos (player g)"
  "currentHealth (player (triggerVictory g)) = currentHealth (player g)"
  by (simp_all add: triggerVictory_def Let_def split: option.splits)

lemma update_slowMo_keeps [simp]:
  "waveManager (update_slowMo dt g) = waveManager g"
  "enemySpawner (update_slowMo dt g) = enemySpawner g"
  "projectiles (update_slowMo dt g) = projectiles g"
  "experienceGems (update_slowMo dt g) = experienceGems g"
  "contactDmgTimer (update_slowMo dt g) = contactDmgTimer g"
  "contactDmgInterval (update_slowMo dt g) = contactDmgInterval g"
  "collisionDist (update_slowMo dt g) = collisionDist g"
  "projectileHitDist (update_slowMo dt g) = projectileHitDist g"
  "gemCollectDist (update_slowMo dt g) = gemCollectDist g"
  "boss (update_slowMo dt g) = boss g"
  "isVictory (update_slowMo dt g) = isVictory g"
  "score (update_slowMo dt g) = score g"
  "kills (update_slowMo dt g) = kills g"
  "pl_pos (player (update_slowMo dt g)) = pl_pos (player g)"
  "currentHealth (player (update_slowMo dt g)) = currentHealth (player g)"
  "currentXp (player (update_slowMo dt g)) = currentXp (player g)"
  by (simp_all add: update_slowMo_def Let_def)

section \<open>Theorems: contact damage\<close>

lemma takeDamage_keeps [simp]:
  "pl_pos (fst (takeDamage amt p)) = pl_pos p"
  "currentHealth (fst (takeDamage amt p)) = currentHealth p - amt"
  "currentXp (fst (takeDamage amt p)) = currentXp p"
  "snd (takeDamage amt p) = (currentHealth p - amt \<le> 0)"
  by (simp_all add: takeDamage_def Let_def)

lemma playerBossContact_keeps [simp]:
  "waveManager (playerBossContact dt b g) = waveManager g"
  "enemySpawner (playerBossContact dt b g) = enemySpawner g"
  "projectiles (playerBossContact dt b g) = projectiles g"
  "experienceGems (playerBossContact dt b g) = experienceGems g"
  "contactDmgInterval (playerBossContact dt b g) = contactDmgInterval g"
  "collisionDist (playerBossContact dt b g) = collisionDist g"
  "projectileHitDist (playerBossContact dt b g) = projectileHitDist g"
  "gemCollectDist (playerBossContact dt b g) = gemCollectDist g"
  "boss (playerBossContact dt b g) = boss g"
  "slowMoScale (playerBossContact dt b g) = slowMoScale g"
  "slowMoTimer (playerBossContact dt b g) = slowMoTimer g"
  "isVictory (playerBossContact dt b g) = isVictory g"
  "victoryShown (playerBossContact dt b g) = victoryShown g"
  "score (playerBossContact dt b g) = score g"
  "kills (playerBossContact dt b g) = kills g"
  "pl_pos (player (playerBossContact dt b g)) = pl_pos (player g)"
  "currentXp (player (playerBossContact dt b g)) = currentXp (player g)"
  by (simp_all add: playerBossContact_def Let_def takeDamage_def)

lemma playerBossContact_timer:
  "contactDmgTimer (playerBossContact dt b g)
     = (if distanceTo (pl_pos (player g)) (b_pos b) < 3
        then (if contactDmgInterval g \<le> contactDmgTimer g + dt then 0 else contactDmgTimer g + dt)
        else contactDmgTimer g)"
  by (simp add: playerBossContact_def Let_def split: prod.splits)

lemma playerBossContact_health:
  "currentHealth (player (playerBossContact dt b g))
     = (if distanceTo (pl_pos (player g)) (b_pos b) < 3
           \<and> contactDmgInterval g \<le> contactDmgTimer g + dt
        then currentHealth (player g) - b_contactDamage b
        else currentHealth (player g))"
  by (simp add: playerBossContact_def Let_def takeDamage_def split: prod.splits)

lemma projectileBossLoop_keeps_all:
  "waveManager (projectileBossLoop todo kept g) = waveManager g
   \<and> enemySpawner (projectileBossLoop todo kept g) = enemySpawner g
   \<and> experienceGems (projectileBossLoop todo kept g) = experienceGems g
   \<and> contactDmgTimer (projectileBossLoop todo kept g) = contactDmgTimer g
   \<and> contactDmgInterval (projectileBossLoop todo kept g) = contactDmgInterval g
   \<and> collisionDist (projectileBossLoop todo kept g) = collisionDist g
   \<and> projectileHitDist (projectileBossLoop todo kept g) = projectileHitDist g
   \<and> gemCollectDist (projectileBossLoop todo kept g) = gemCollectDist g
   \<and> victoryShown (projectileBossLoop todo kept g) = victoryShown g
   \<and> pl_pos (player (projectileBossLoop todo kept g)) = pl_pos (player g)
   \<and> currentHealth (player (projectileBossLoop todo kept g)) = currentHealth (player g)"
proof (induction todo arbitrary: kept g)
  case Nil
  show ?case by simp
next
  case (Cons p todo)
  show ?case by (simp add: Cons.IH split: option.splits prod.splits)
qed

lemmas projectileBossLoop_keeps [simp] =
  projectileBossLoop_keeps_all [THEN conjunct1]
  projectileBossLoop_keeps_all [THEN conjunct2, THEN conjunct1]
  projectileBossLoop_keeps_all [THEN conjunct2, THEN conjunct2, THEN conjunct1]
  projectileBossLoop_keeps_all [THEN conjunct2, THEN conjunct2, THEN conjunct2, THEN conjunct1]
  projectileBossLoop_keeps_all [THEN conjunct2, THEN conjunct2, THEN conjunct2, THEN conjunct2,
    THEN conjunct1]
  projectileBossLoop_keeps_all [THEN conjunct2, THEN conjunct2, THEN conjunct2, THEN conjunct2,
    THEN conjunct2, THEN conjunct1]
  projectileBossLoop_keeps_all [THEN conjunct2, THEN conjunct2, THEN conjunct2, THEN conjunct2,
    THEN conjunct2, THEN conjunct2, THEN conjunct1]
  projectileBossLoop_keeps_all [THEN conjunct2, THEN conjunct2, THEN conjunct2, THEN conjunct2,
    THEN conjunct2, THEN conjunct2, THEN conjunct2, THEN conjunct1]
  projectileBossLoop_keeps_all [THEN conjunct2, THEN conjunct2, THEN conjunct2, THEN conjunct2,
    THEN conjunct2, THEN conjunct2, THEN conjunct2, THEN conjunct2, THEN conjunct1]
  projectileBossLoop_keeps_all [THEN conjunct2, THEN conjunct2, THEN conjunct2, THEN conjunct2,
    THEN conjunct2, THEN conjunct2, THEN conjunct2, THEN conjunct2, THEN conjunct2, THEN conjunct1]
  projectileBossLoop_keeps_all [THEN conjunct2, THEN conjunct2, THEN conjunct2, THEN conjunct2,
    THEN conjunct2, THEN conjunct2, THEN conjunct2, THEN conjunct2, THEN conjunct2, THEN conjunct2]

lemma touching_cong:
  "collisionDist h = collisionDist g \<Longrightarrow> enemySpawner h = enemySpawner g
   \<Longrightarrow> pl_pos (player h) = pl_pos (player g) \<Longrightarrow> touching h = touching g"
  by (simp add: touching_def)

lemma checkBossCollisions_timer:
  assumes "boss g = Some b" and "\<not> b_isDestroyed b"
  shows "contactDmgTimer (checkBossCollisions dt g)
     = (if distanceTo (pl_pos (player g)) (b_pos b) < 3
        then (if contactDmgInterval g \<le> contactDmgTimer g + dt then 0 else contactDmgTimer g + dt)
        else contactDmgTimer g)"
    and "currentHealth (player (checkBossCollisions dt g))
     = (if distanceTo (pl_pos (player g)) (b_pos b) < 3
           \<and> contactDmgInterval g \<le> contactDmgTimer g + dt
        then currentHealth (player g) - b_contactDamage b
        else currentHealth (player g))"
  using assms
  by (simp_all add: checkBossCollisions_def projectileBossPass_def playerBossContact_timer
        playerBossContact_health)

lemma checkBossCollisions_keeps [simp]:
  "waveManager (checkBossCollisions dt g) = waveManager g"
  "enemySpawner (checkBossCollisions dt g) = enemySpawner g"
  "experienceGems (checkBossCollisions dt g) = experienceGems g"
  "contactDmgInterval (checkBossCollisions dt g) = contactDmgInterval g"
  "collisionDist (checkBossCollisions dt g) = collisionDist g"
  "projectileHitDist (checkBossCollisions dt g) = projectileHitDist g"
  "gemCollectDist (checkBossCollisions dt g) = gemCollectDist g"
  "victoryShown (checkBossCollisions dt g) = victoryShown g"
  "pl_pos (player (checkBossCollisions dt g)) = pl_pos (player g)"
  by (simp_all add: checkBossCollisions_def projectileBossPass_def split: option.splits)

lemma checkPlayerEnemyCollisions_timer:
  "contactDmgTimer (checkPlayerEnemyCollisions dt g)
     = (if touching g \<noteq> [] \<and> contactDmgInterval g \<le> contactDmgTimer g + dt
        then 0 else contactDmgTimer g + dt)"
  "currentHealth (player (checkPlayerEnemyCollisions dt g))
     = (if touching g \<noteq> [] \<and> contactDmgInterval g \<le> contactDmgTimer g + dt
        then currentHealth (player g) - sum_list (map e_contactDamage (touching g))
        else currentHealth (player g))"
  by (simp_all add: checkPlayerEnemyCollisions_def Let_def takeDamage_def
        touching_cong [of "g\<lparr>contactDmgTimer := contactDmgTimer g + dt\<rparr>" g])

lemma checkPlayerEnemyCollisions_keeps [simp]:
  "waveManager (checkPlayerEnemyCollisions dt g) = waveManager g"
  "enemySpawner (checkPlayerEnemyCollisions dt g) = enemySpawner g"
  "projectiles (checkPlayerEnemyCollisions dt g) = projectiles g"
  "experienceGems (checkPlayerEnemyCollisions dt g) = experienceGems g"
  "contactDmgInterval (checkPlayerEnemyCollisions dt g) = contactDmgInterval g"
  "collisionDist (checkPlayerEnemyCollisions dt g) = collisionDist g"
  "projectileHitDist (checkPlayerEnemyCollisions dt g) = projectileHitDist g"
  "gemCollectDist (checkPlayerEnemyCollisions dt g) = gemCollectDist g"
  "boss (checkPlayerEnemyCollisions dt g) = boss g"
  "slowMoScale (checkPlayerEnemyCollisions dt g) = slowMoScale g"
  "slowMoTimer (checkPlayerEnemyCollisions dt g) = slowMoTimer g"
  "isVictory (checkPlayerEnemyCollisions dt g) = isVictory g"
  "victoryShown (checkPlayerEnemyCollisions dt g) = victoryShown g"
  "score (checkPlayerEnemyCollisions dt g) = score g"
  "kills (checkPlayerEnemyCollisions dt g) = kills g"
  "pl_pos (player (checkPlayerEnemyCollisions dt g)) = pl_pos (player g)"
  "currentXp (player (checkPlayerEnemyCollisions dt g)) = currentXp (player g)"
  by (simp_all add: checkPlayerEnemyCollisions_def Let_def takeDamage_def)

text \<open>
  C10. The contact passes against the boss and against the enemies use the one timer
  \<open>contactDmgTimer\<close>, in that order within a frame. With a live boss: while the
  player is within 3.0 of it and no damage is due, the timer grows by \<open>dt\<close> twice in a
  frame, once in each pass; away from the boss it grows once. When the boss's contact
  damage is applied the timer is reset to 0, so the enemy pass of the same frame finds
  only \<open>dt\<close> on it and applies nothing (for \<open>dt\<close> below the interval). When the
  enemies' contact damage is applied the timer is reset to 0 as well, and the next boss
  pass starts from 0. The two sources do not have independent schedules.
\<close>

theorem shared_contact_timer:
  assumes alive: "boss g = Some b" "\<not> b_isDestroyed b"
  shows "(distanceTo (pl_pos (player g)) (b_pos b) < 3
            \<and> contactDmgTimer g + dt < contactDmgInterval g
            \<and> contactDmgTimer g + dt + dt < contactDmgInterval g \<longrightarrow>
          contactDmgTimer
            (checkPlayerEnemyCollisions dt (update_slowMo dt (checkBossCollisions dt g)))
            = contactDmgTimer g + dt + dt)
       \<and> (\<not> distanceTo (pl_pos (player g)) (b_pos b) < 3
            \<and> contactDmgTimer g + dt < contactDmgInterval g \<longrightarrow>
          contactDmgTimer
            (checkPlayerEnemyCollisions dt (update_slowMo dt (checkBossCollisions dt g)))
            = contactDmgTimer g + dt)
       \<and> (distanceTo (pl_pos (player g)) (b_pos b) < 3
            \<and> contactDmgInterval g \<le> contactDmgTimer g + dt \<longrightarrow>
            contactDmgTimer (checkBossCollisions dt g) = 0
            \<and> currentHealth (player (checkBossCollisions dt g))
                = currentHealth (player g) - b_contactDamage b
            \<and> (dt < contactDmgInterval g \<longrightarrow>
                 contactDmgTimer
                   (checkPlayerEnemyCollisions dt (update_slowMo dt (checkBossCollisions dt g)))
                   = dt
                 \<and> currentHealth (player
                     (checkPlayerEnemyCollisions dt (update_slowMo dt (checkBossCollisions dt g))))
                     = currentHealth (player g) - b_contactDamage b))
       \<and> (distanceTo (pl_pos (player g)) (b_pos b) < 3
            \<and> touching g \<noteq> [] \<and> contactDmgInterval g \<le> contactDmgTimer g + dt \<longrightarrow>
            contactDmgTimer (checkPlayerEnemyCollisions dt g) = 0
            \<and> contactDmgTimer (checkBossCollisions dt2 (checkPlayerEnemyCollisions dt g))
                = (if contactDmgInterval g \<le> dt2 then 0 else dt2))"
proof -
  have t: "touching (update_slowMo dt (checkBossCollisions dt g)) = touching g"
    by (rule touching_cong) simp_all
  have b2: "boss (checkPlayerEnemyCollisions dt g) = Some b" using alive by simp
  show ?thesis
    by (simp add: checkPlayerEnemyCollisions_timer t checkBossCollisions_timer [OF alive]
          checkBossCollisions_timer [OF b2 alive(2)])
qed


lemma contact_game_boss:
  "boss contact_game = Some (boss_start (vec 0 0 0) new_Boss)"
  "\<not> b_isDestroyed (boss_start (vec 0 0 0) new_Boss)"
  "b_pos (boss_start (vec 0 0 0) new_Boss) = vec 0 2 0"
  "b_contactDamage (boss_start (vec 0 0 0) new_Boss) = 50"
  by (simp_all add: contact_game_def new_GameManager_def boss_start_def new_Boss_def vec_def)

lemma contact_game_fields:
  "pl_pos (player contact_game) = vec 0 1 0"
  "currentHealth (player contact_game) = 100"
  "contactDmgTimer contact_game = 0.49"
  "contactDmgInterval contact_game = 0.5"
  "collisionDist contact_game = 1.2"
  "enemies (enemySpawner contact_game) = [enemy_start (vec 0 0 0) 1 (new_Enemy 0 Normal)]"
  by (simp_all add: contact_game_def new_GameManager_def new_Player_def new_EnemySpawner_def)

lemma contact_game_near: "distanceTo (vec 0 1 0) (vec 0 2 0) < 3"
  by (simp add: distanceTo_less_iff lengthSq_def subVectors_def vec_def)

lemma distanceTo_exact:
  "0 \<le> d \<Longrightarrow> lengthSq (subVectors a b) = d * d \<Longrightarrow> distanceTo a b = d"
  by (simp add: distanceTo_def vlength_def)

lemma contact_game_enemy_dist: "distanceTo (vec 0 1 0) (vec 0 (1 / 2) 0) = 1 / 2"
  by (rule distanceTo_exact) (simp_all add: lengthSq_def subVectors_def vec_def)

lemma contact_game_touching:
  "touching contact_game = [enemy_start (vec 0 0 0) 1 (new_Enemy 0 Normal)]"
  using contact_game_enemy_dist
  by (simp add: touching_def contact_game_fields enemy_start_def new_Enemy_def Let_def vec_def)

theorem shared_contact_timer_witness:
  "boss contact_game = Some (boss_start (vec 0 0 0) new_Boss)
   \<and> \<not> b_isDestroyed (boss_start (vec 0 0 0) new_Boss)
   \<and> distanceTo (pl_pos (player contact_game)) (b_pos (boss_start (vec 0 0 0) new_Boss)) < 3
   \<and> touching contact_game \<noteq> []
   \<and> contactDmgInterval contact_game \<le> contactDmgTimer contact_game + 0.016
   \<and> contactDmgTimer (checkBossCollisions 0.016 contact_game) = 0
   \<and> contactDmgTimer (checkPlayerEnemyCollisions 0.016
         (update_slowMo 0.016 (checkBossCollisions 0.016 contact_game))) = 0.016
   \<and> currentHealth (player (checkPlayerEnemyCollisions 0.016
         (update_slowMo 0.016 (checkBossCollisions 0.016 contact_game)))) = 50
   \<and> contactDmgTimer (checkPlayerEnemyCollisions 0.016 contact_game) = 0
   \<and> contactDmgTimer (checkBossCollisions 0.016
         (checkPlayerEnemyCollisions 0.016 contact_game)) = 0.016
   \<and> contactDmgTimer (contact_game\<lparr>contactDmgTimer := 0.1\<rparr>) + 0.016 + 0.016
        < contactDmgInterval (contact_game\<lparr>contactDmgTimer := 0.1\<rparr>)
   \<and> contactDmgTimer (checkPlayerEnemyCollisions 0.016
         (update_slowMo 0.016
            (checkBossCollisions 0.016 (contact_game\<lparr>contactDmgTimer := 0.1\<rparr>)))) = 0.132
   \<and> \<not> distanceTo (pl_pos (player (contact_game\<lparr>contactDmgTimer := 0.1,
              boss := Some (boss_start (vec 30 0 0) new_Boss)\<rparr>)))
            (b_pos (boss_start (vec 30 0 0) new_Boss)) < 3
   \<and> contactDmgTimer (checkPlayerEnemyCollisions 0.016
         (update_slowMo 0.016
            (checkBossCollisions 0.016 (contact_game\<lparr>contactDmgTimer := 0.1,
               boss := Some (boss_start (vec 30 0 0) new_Boss)\<rparr>)))) = 0.116"
proof -
  have far: "\<not> distanceTo (vec 0 1 0) (vec 30 2 0) < 3"
    by (simp add: distanceTo_less_iff lengthSq_def subVectors_def vec_def)
  have b3: "boss (contact_game\<lparr>contactDmgTimer := 0.1,
              boss := Some (boss_start (vec 30 0 0) new_Boss)\<rparr>)
            = Some (boss_start (vec 30 0 0) new_Boss)"
       "\<not> b_isDestroyed (boss_start (vec 30 0 0) new_Boss)"
       "b_pos (boss_start (vec 30 0 0) new_Boss) = vec 30 2 0"
    by (simp_all add: boss_start_def new_Boss_def vec_def)
  have b1: "boss (contact_game\<lparr>contactDmgTimer := 0.1\<rparr>) = Some (boss_start (vec 0 0 0) new_Boss)"
    by (simp add: contact_game_boss)
  show ?thesis
    using shared_contact_timer [OF contact_game_boss(1) contact_game_boss(2), of "0.016" "0.016"]
          shared_contact_timer [OF b1 contact_game_boss(2), of "0.016" "0.016"]
          shared_contact_timer [OF b3(1) b3(2), of "0.016" "0.016"]
          contact_game_near far
    by (simp add: contact_game_boss contact_game_fields contact_game_touching b3(3))
qed

section \<open>Theorems: the order of a frame\<close>

lemma resolveHit_keeps [simp]:
  "waveManager (resolveHit p j g) = waveManager g"
  "player (resolveHit p j g) = player g"
  "projectiles (resolveHit p j g) = projectiles g"
  "contactDmgTimer (resolveHit p j g) = contactDmgTimer g"
  "contactDmgInterval (resolveHit p j g) = contactDmgInterval g"
  "collisionDist (resolveHit p j g) = collisionDist g"
  "projectileHitDist (resolveHit p j g) = projectileHitDist g"
  "gemCollectDist (resolveHit p j g) = gemCollectDist g"
  "boss (resolveHit p j g) = boss g"
  "slowMoScale (resolveHit p j g) = slowMoScale g"
  "slowMoTimer (resolveHit p j g) = slowMoTimer g"
  "isVictory (resolveHit p j g) = isVictory g"
  "isPaused (resolveHit p j g) = isPaused g"
  "victoryShown (resolveHit p j g) = victoryShown g"
  by (simp_all add: resolveHit_def Let_def split: prod.splits)

lemma projectileEnemyStep_keeps [simp]:
  "waveManager (snd (projectileEnemyStep p kept g)) = waveManager g"
  "player (snd (projectileEnemyStep p kept g)) = player g"
  "contactDmgTimer (snd (projectileEnemyStep p kept g)) = contactDmgTimer g"
  "contactDmgInterval (snd (projectileEnemyStep p kept g)) = contactDmgInterval g"
  "collisionDist (snd (projectileEnemyStep p kept g)) = collisionDist g"
  "projectileHitDist (snd (projectileEnemyStep p kept g)) = projectileHitDist g"
  "gemCollectDist (snd (projectileEnemyStep p kept g)) = gemCollectDist g"
  "boss (snd (projectileEnemyStep p kept g)) = boss g"
  "slowMoScale (snd (projectileEnemyStep p kept g)) = slowMoScale g"
  "slowMoTimer (snd (projectileEnemyStep p kept g)) = slowMoTimer g"
  "isVictory (snd (projectileEnemyStep p kept g)) = isVictory g"
  "isPaused (snd (projectileEnemyStep p kept g)) = isPaused g"
  "victoryShown (snd (projectileEnemyStep p kept g)) = victoryShown g"
  by (simp_all add: projectileEnemyStep_def split: option.splits)

lemma projectileEnemyLoop_keeps_all:
  "waveManager (projectileEnemyLoop todo kept g) = waveManager g
   \<and> player (projectileEnemyLoop todo kept g) = player g
   \<and> contactDmgTimer (projectileEnemyLoop todo kept g) = contactDmgTimer g
   \<and> contactDmgInterval (projectileEnemyLoop todo kept g) = contactDmgInterval g
   \<and> collisionDist (projectileEnemyLoop todo kept g) = collisionDist g
   \<and> projectileHitDist (projectileEnemyLoop todo kept g) = projectileHitDist g
   \<and> gemCollectDist (projectileEnemyLoop todo kept g) = gemCollectDist g
   \<and> boss (projectileEnemyLoop todo kept g) = boss g
   \<and> slowMoScale (projectileEnemyLoop todo kept g) = slowMoScale g
   \<and> slowMoTimer (projectileEnemyLoop todo kept g) = slowMoTimer g
   \<and> isVictory (projectileEnemyLoop todo kept g) = isVictory g
   \<and> isPaused (projectileEnemyLoop todo kept g) = isPaused g
   \<and> victoryShown (projectileEnemyLoop todo kept g) = victoryShown g"
proof (induction todo arbitrary: kept g)
  case Nil
  show ?case by simp
next
  case (Cons p todo)
  obtain k1 g1 where st: "projectileEnemyStep p kept g = (k1, g1)"
    by (cases "projectileEnemyStep p kept g")
  have g1: "g1 = snd (projectileEnemyStep p kept g)" by (simp add: st)
  show ?case by (simp add: st Cons.IH) (simp add: g1)
qed

lemma checkProjectileEnemyCollisions_keeps [simp]:
  "waveManager (checkProjectileEnemyCollisions g) = waveManager g"
  "player (checkProjectileEnemyCollisions g) = player g"
  "contactDmgTimer (checkProjectileEnemyCollisions g) = contactDmgTimer g"
  "contactDmgInterval (checkProjectileEnemyCollisions g) = contactDmgInterval g"
  "collisionDist (checkProjectileEnemyCollisions g) = collisionDist g"
  "projectileHitDist (checkProjectileEnemyCollisions g) = projectileHitDist g"
  "gemCollectDist (checkProjectileEnemyCollisions g) = gemCollectDist g"
  "boss (checkProjectileEnemyCollisions g) = boss g"
  "slowMoScale (checkProjectileEnemyCollisions g) = slowMoScale g"
  "slowMoTimer (checkProjectileEnemyCollisions g) = slowMoTimer g"
  "isVictory (checkProjectileEnemyCollisions g) = isVictory g"
  "isPaused (checkProjectileEnemyCollisions g) = isPaused g"
  "victoryShown (checkProjectileEnemyCollisions g) = victoryShown g"
  by (simp_all add: checkProjectileEnemyCollisions_def projectileEnemyLoop_keeps_all)

lemma gemLoop_keeps_all:
  "waveManager (gemLoop todo seen g) = waveManager g
   \<and> enemySpawner (gemLoop todo seen g) = enemySpawner g
   \<and> projectiles (gemLoop todo seen g) = projectiles g
   \<and> contactDmgTimer (gemLoop todo seen g) = contactDmgTimer g
   \<and> contactDmgInterval (gemLoop todo seen g) = contactDmgInterval g
   \<and> collisionDist (gemLoop todo seen g) = collisionDist g
   \<and> projectileHitDist (gemLoop todo seen g) = projectileHitDist g
   \<and> gemCollectDist (gemLoop todo seen g) = gemCollectDist g
   \<and> boss (gemLoop todo seen g) = boss g
   \<and> slowMoScale (gemLoop todo seen g) = slowMoScale g
   \<and> slowMoTimer (gemLoop todo seen g) = slowMoTimer g
   \<and> isVictory (gemLoop todo seen g) = isVictory g
   \<and> victoryShown (gemLoop todo seen g) = victoryShown g
   \<and> score (gemLoop todo seen g) = score g
   \<and> kills (gemLoop todo seen g) = kills g
   \<and> pl_pos (player (gemLoop todo seen g)) = pl_pos (player g)
   \<and> currentHealth (player (gemLoop todo seen g)) = currentHealth (player g)"
proof (induction todo arbitrary: seen g)
  case Nil
  show ?case by simp
next
  case (Cons x todo)
  show ?case by (simp add: Cons.IH)
qed

lemma checkGemCollections_keeps [simp]:
  "waveManager (checkGemCollections g) = waveManager g"
  "enemySpawner (checkGemCollections g) = enemySpawner g"
  "projectiles (checkGemCollections g) = projectiles g"
  "contactDmgTimer (checkGemCollections g) = contactDmgTimer g"
  "contactDmgInterval (checkGemCollections g) = contactDmgInterval g"
  "collisionDist (checkGemCollections g) = collisionDist g"
  "projectileHitDist (checkGemCollections g) = projectileHitDist g"
  "gemCollectDist (checkGemCollections g) = gemCollectDist g"
  "boss (checkGemCollections g) = boss g"
  "slowMoScale (checkGemCollections g) = slowMoScale g"
  "slowMoTimer (checkGemCollections g) = slowMoTimer g"
  "isVictory (checkGemCollections g) = isVictory g"
  "victoryShown (checkGemCollections g) = victoryShown g"
  "score (checkGemCollections g) = score g"
  "kills (checkGemCollections g) = kills g"
  "pl_pos (player (checkGemCollections g)) = pl_pos (player g)"
  "currentHealth (player (checkGemCollections g)) = currentHealth (player g)"
  by (simp_all add: checkGemCollections_def gemLoop_keeps_all)

lemma update_boss_split: "update_boss dt g = checkBossCollisions dt (boss_motion dt g)"
  by (simp add: update_boss_def boss_motion_def checkBossCollisions_def split: option.splits)

lemma vlength_zero_vec [simp]: "vlength (vec 0 0 0) = 0"
  by (simp add: vlength_def lengthSq_def vec_def)

lemma normalizeV_zero [simp]: "normalizeV (vec 0 0 0) = vec 0 0 0"
  by (simp add: normalizeV_def divideScalar_def) (simp add: vec_def)

lemma contact_entities:
  "pl_pos (player (update_entities (1 / 50) keys_none 0 contact_game)) = vec 0 1 0"
  "currentHealth (player (update_entities (1 / 50) keys_none 0 contact_game)) = 100"
  "map e_pos (enemies (enemySpawner (update_entities (1 / 50) keys_none 0 contact_game)))
     = [vec 0 (1 / 2) 0]"
  "map e_contactDamage (enemies (enemySpawner (update_entities (1 / 50) keys_none 0 contact_game)))
     = [10]"
  "boss (update_entities (1 / 50) keys_none 0 contact_game) = Some (boss_start (vec 0 0 0) new_Boss)"
  "contactDmgTimer (update_entities (1 / 50) keys_none 0 contact_game) = 0.49"
  "contactDmgInterval (update_entities (1 / 50) keys_none 0 contact_game) = 0.5"
  "collisionDist (update_entities (1 / 50) keys_none 0 contact_game) = 1.2"
  "slowMoScale (update_entities (1 / 50) keys_none 0 contact_game) = 1"
  "slowMoTimer (update_entities (1 / 50) keys_none 0 contact_game) = 0"
  "projectiles (update_entities (1 / 50) keys_none 0 contact_game) = []"
  "experienceGems (update_entities (1 / 50) keys_none 0 contact_game) = []"
  "length (enemies (enemySpawner (update_entities (1 / 50) keys_none 0 contact_game))) = 1"
  by (simp_all add: update_entities_def contact_game_def new_GameManager_def Let_def
        wave_update_def Player_update_def handleMovement_def getMovementVector_def keys_none_def
        handleShooting_def handleRegen_def new_Player_def activeWeapon_def new_Weapon_def
        spawner_update_def new_EnemySpawner_def enemy_update_def enemy_start_def new_Enemy_def
        updateGems_def updateProjectiles_def subVectors_def vec_def
        normalizeV_zero [unfolded vec_def] vlength_zero_vec [unfolded vec_def])

lemma boss_motion_keeps [simp]:
  "waveManager (boss_motion dt g) = waveManager g"
  "player (boss_motion dt g) = player g"
  "enemySpawner (boss_motion dt g) = enemySpawner g"
  "projectiles (boss_motion dt g) = projectiles g"
  "experienceGems (boss_motion dt g) = experienceGems g"
  "contactDmgTimer (boss_motion dt g) = contactDmgTimer g"
  "contactDmgInterval (boss_motion dt g) = contactDmgInterval g"
  "collisionDist (boss_motion dt g) = collisionDist g"
  "projectileHitDist (boss_motion dt g) = projectileHitDist g"
  "gemCollectDist (boss_motion dt g) = gemCollectDist g"
  "slowMoScale (boss_motion dt g) = slowMoScale g"
  "slowMoTimer (boss_motion dt g) = slowMoTimer g"
  "isVictory (boss_motion dt g) = isVictory g"
  "victoryShown (boss_motion dt g) = victoryShown g"
  by (simp_all add: boss_motion_def split: option.splits)

lemma contact_boss_moved:
  "boss (boss_motion (1 / 50) (update_entities (1 / 50) keys_none 0 contact_game))
     = Some (Boss_update (1 / 50) (vec 0 1 0) (boss_start (vec 0 0 0) new_Boss))"
  "\<not> b_isDestroyed (Boss_update (1 / 50) (vec 0 1 0) (boss_start (vec 0 0 0) new_Boss))"
  "b_pos (Boss_update (1 / 50) (vec 0 1 0) (boss_start (vec 0 0 0) new_Boss)) = vec 0 2 0"
  "b_contactDamage (Boss_update (1 / 50) (vec 0 1 0) (boss_start (vec 0 0 0) new_Boss)) = 50"
  by (simp_all add: boss_motion_def contact_entities Boss_update_def boss_start_def
        new_Boss_def Let_def subVectors_def vec_def
        normalizeV_zero [unfolded vec_def])

lemma contact_touching:
  assumes "collisionDist x = 1.2" and "pl_pos (player x) = vec 0 1 0"
    and "enemySpawner x = enemySpawner (update_entities (1 / 50) keys_none 0 contact_game)"
  shows "touching x \<noteq> []" and "sum_list (map e_contactDamage (touching x)) = 10"
proof -
  obtain e where e: "enemies (enemySpawner x) = [e]"
    using contact_entities(13) assms(3)
    by (cases "enemies (enemySpawner x)") auto
  have p: "e_pos e = vec 0 (1 / 2) 0" and d: "e_contactDamage e = 10"
    using contact_entities(3,4) e assms(3) by simp_all
  have t: "touching x = [e]"
    using contact_game_enemy_dist by (simp add: touching_def assms(1,2) e p)
  show "touching x \<noteq> []" by (simp add: t)
  show "sum_list (map e_contactDamage (touching x)) = 10" by (simp add: t d)
qed

text \<open>
  C3 as stated fails. In a frame where the player touches both the boss and an enemy
  and the shared contact timer comes due, the code applies the boss's 50 damage (the boss
  passes run first) and leaves the player at 50 health; the order of the claim would
  apply the enemy's 10 damage and leave 90.
\<close>

theorem frame_order_counterexample:
  "currentHealth (player (update (1 / 50) keys_none 0 contact_game)) = 50
   \<and> currentHealth (player (update_spec_order (1 / 50) keys_none 0 contact_game)) = 90
   \<and> update (1 / 50) keys_none 0 contact_game \<noteq> update_spec_order (1 / 50) keys_none 0 contact_game"
proof -
  let ?m = "boss_motion (1 / 50) (update_entities (1 / 50) keys_none 0 contact_game)"
  let ?b = "Boss_update (1 / 50) (vec 0 1 0) (boss_start (vec 0 0 0) new_Boss)"
  have near: "distanceTo (pl_pos (player ?m)) (b_pos ?b) < 3"
    using contact_game_near by (simp add: contact_entities contact_boss_moved)
  have code: "currentHealth (player (update (1 / 50) keys_none 0 contact_game)) = 50"
    using near
    by (simp add: update_def update_boss_split checkPlayerEnemyCollisions_timer
          checkBossCollisions_timer [OF contact_boss_moved(1) contact_boss_moved(2)]
          contact_entities contact_boss_moved)
  let ?c1 = "checkPlayerEnemyCollisions (1 / 50) ?m"
  have t: "touching ?m \<noteq> []" "sum_list (map e_contactDamage (touching ?m)) = 10"
    by (rule contact_touching; simp add: contact_entities)+
  have c1: "currentHealth (player ?c1) = 90" "contactDmgTimer ?c1 = 0"
    using t by (simp_all add: checkPlayerEnemyCollisions_timer contact_entities)
  have spec: "currentHealth (player (update_spec_order (1 / 50) keys_none 0 contact_game)) = 90"
    using near c1
    by (simp add: update_spec_order_def Let_def contact_boss_moved playerBossContact_health
          playerBossContact_timer projectileBossPass_def contact_entities)
  show ?thesis using code spec by auto
qed


lemma enemies_kept_iff:
  "enemies_kept es' es = (\<forall>e \<in> set es'. \<exists>e0 \<in> set es. e_id e = e_id e0 \<and> e_pos e = e_pos e0)"
  by (simp add: enemies_kept_def list_all_iff list_ex_iff)

lemma enemies_kept_refl [simp]: "enemies_kept es es"
  by (auto simp: enemies_kept_iff)

lemma enemies_kept_trans: "enemies_kept a b \<Longrightarrow> enemies_kept b c \<Longrightarrow> enemies_kept a c"
  unfolding enemies_kept_iff by (metis)

lemma enemies_kept_update:
  "e_id e1 = e_id (es ! j) \<Longrightarrow> e_pos e1 = e_pos (es ! j) \<Longrightarrow> enemies_kept (es[j := e1]) es"
proof (cases "j < length es")
  case False
  then show ?thesis by (simp add: list_update_beyond not_less)
next
  case True
  assume a: "e_id e1 = e_id (es ! j)" "e_pos e1 = e_pos (es ! j)"
  show ?thesis
    unfolding enemies_kept_iff
  proof
    fix e assume "e \<in> set (es[j := e1])"
    then have "e = e1 \<or> e \<in> set es" using set_update_subset_insert [of es j e1] by auto
    then show "\<exists>e0 \<in> set es. e_id e = e_id e0 \<and> e_pos e = e_pos e0"
      using a True nth_mem [OF True] by auto
  qed
qed

lemma enemies_kept_remove: "enemies_kept (take j es @ drop (Suc j) es) es"
  unfolding enemies_kept_iff
  by (auto dest: in_set_takeD in_set_dropD)

lemma resolveHit_enemies_kept:
  "enemies_kept (enemies (enemySpawner (resolveHit p j g))) (enemies (enemySpawner g))"
  by (simp add: resolveHit_enemies enemies_kept_remove enemies_kept_update enemy_takeDamage_def
        Let_def)

lemma resolveHit_gems:
  "\<exists>ys. experienceGems (resolveHit p j g) = experienceGems g @ ys"
  by (simp add: resolveHit_def Let_def spawnGem_def split: prod.splits)

lemma projectileEnemyStep_entities:
  "enemies_kept (enemies (enemySpawner (snd (projectileEnemyStep p kept g))))
                (enemies (enemySpawner g))"
  "\<exists>ys. experienceGems (snd (projectileEnemyStep p kept g)) = experienceGems g @ ys"
  "set (fst (projectileEnemyStep p kept g)) \<subseteq> insert p (set kept)"
  using resolveHit_gems [of p _ g]
  by (auto simp: projectileEnemyStep_def resolveHit_enemies_kept split: option.splits)

lemma projectileEnemyLoop_entities:
  "enemies_kept (enemies (enemySpawner (projectileEnemyLoop todo kept g)))
                (enemies (enemySpawner g))
   \<and> (\<exists>ys. experienceGems (projectileEnemyLoop todo kept g) = experienceGems g @ ys)
   \<and> set (projectiles (projectileEnemyLoop todo kept g)) \<subseteq> set todo \<union> set kept"
proof (induction todo arbitrary: kept g)
  case Nil
  show ?case by simp
next
  case (Cons p todo)
  obtain k1 g1 where st: "projectileEnemyStep p kept g = (k1, g1)"
    by (cases "projectileEnemyStep p kept g")
  have e: "enemies_kept (enemies (enemySpawner g1)) (enemies (enemySpawner g))"
    and x: "\<exists>ys. experienceGems g1 = experienceGems g @ ys"
    and k: "set k1 \<subseteq> insert p (set kept)"
    using projectileEnemyStep_entities [of p kept g] by (simp_all add: st)
  from Cons.IH [of k1 g1] x k show ?case
    by (auto simp: st intro: enemies_kept_trans [OF _ e])
qed

lemma checkProjectileEnemyCollisions_entities:
  "enemies_kept (enemies (enemySpawner (checkProjectileEnemyCollisions g)))
                (enemies (enemySpawner g))"
  "\<exists>ys. experienceGems (checkProjectileEnemyCollisions g) = experienceGems g @ ys"
  "set (projectiles (checkProjectileEnemyCollisions g)) \<subseteq> set (projectiles g)"
  using projectileEnemyLoop_entities [of "rev (projectiles g)" "[]" g]
  by (simp_all add: checkProjectileEnemyCollisions_def)

lemma gemLoop_positions:
  "map g_pos (experienceGems (gemLoop todo seen g)) = map g_pos (seen @ todo)"
  by (induction todo arbitrary: seen g) (simp_all add: gem_collect_def)

lemma checkGemCollections_positions:
  "map g_pos (experienceGems (checkGemCollections g)) = map g_pos (experienceGems g)"
  by (simp add: checkGemCollections_def gemLoop_positions)

lemma boss_position_cong: "boss h = boss g \<Longrightarrow> boss_position h = boss_position g"
  by (simp add: boss_position_def)

lemma triggerVictory_boss_pos: "boss_position (triggerVictory g) = boss_position g"
  by (simp add: boss_position_def triggerVictory_def Let_def boss_destroy_def
        split: option.splits)

lemma projectileBossLoop_boss_pos:
  "boss_position (projectileBossLoop todo kept g) = boss_position g"
proof (induction todo arbitrary: kept g)
  case Nil
  show ?case by (simp add: boss_position_def)
next
  case (Cons p todo)
  show ?case
  proof (cases "boss g")
    case None
    then show ?thesis by (simp add: boss_position_def)
  next
    case (Some b)
    show ?thesis
      using Some
      by (simp add: Cons.IH triggerVictory_boss_pos boss_takeDamage_def Let_def;
          simp add: boss_position_def)
  qed
qed

lemma projectileBossLoop_projectiles:
  "set (projectiles (projectileBossLoop todo kept g)) \<subseteq> set todo \<union> set kept"
proof (induction todo arbitrary: kept g)
  case Nil
  show ?case by simp
next
  case (Cons p todo)
  have a: "set (projectiles (projectileBossLoop todo (p # kept) g)) \<subseteq> set todo \<union> set (p # kept)"
    by (rule Cons.IH)
  have b: "\<And>h. set (projectiles (projectileBossLoop todo kept h)) \<subseteq> set todo \<union> set kept"
    by (rule Cons.IH)
  show ?case
    using a b
    by (auto simp: boss_takeDamage_def Let_def split: option.splits)
qed

lemma checkBossCollisions_entities:
  "boss_position (checkBossCollisions dt g) = boss_position g"
  "set (projectiles (checkBossCollisions dt g)) \<subseteq> set (projectiles g)"
proof -
  show "boss_position (checkBossCollisions dt g) = boss_position g"
    by (simp add: checkBossCollisions_def projectileBossPass_def projectileBossLoop_boss_pos
          boss_position_cong [of "playerBossContact dt _ g" g] split: option.splits)
  show "set (projectiles (checkBossCollisions dt g)) \<subseteq> set (projectiles g)"
    using projectileBossLoop_projectiles [of "rev (projectiles g)" "[]"]
    by (simp add: checkBossCollisions_def projectileBossPass_def split: option.splits)
qed

text \<open>
  C3 (amended). In every frame the collision passes run after all entity motion, the
  boss's included, in the fixed order: player-boss contact and then projectile-boss
  (both inside \<^verbatim>\<open>checkBossCollisions\<close>, only while a live boss exists), the
  slow-motion timer, player-enemy contact, projectile-enemy, player-gem collection.
  None of the passes moves anything: at the end of the frame the player and the boss
  are where the motion left them, every remaining enemy and projectile is one that the
  motion left, where it left it, and so is every gem that existed then.
\<close>

theorem frame_order:
  "update dt im now g
     = checkGemCollections
         (checkProjectileEnemyCollisions
            (checkPlayerEnemyCollisions dt
               (update_slowMo dt
                  (checkBossCollisions dt (boss_motion dt (update_entities dt im now g))))))
   \<and> (\<forall>b. boss (boss_motion dt (update_entities dt im now g)) = Some b \<and> \<not> b_isDestroyed b \<longrightarrow>
          checkBossCollisions dt (boss_motion dt (update_entities dt im now g))
            = projectileBossPass
                (playerBossContact dt b (boss_motion dt (update_entities dt im now g))))
   \<and> pl_pos (player (update dt im now g))
       = pl_pos (player (boss_motion dt (update_entities dt im now g)))
   \<and> boss_position (update dt im now g)
       = boss_position (boss_motion dt (update_entities dt im now g))
   \<and> enemies_kept (enemies (enemySpawner (update dt im now g)))
        (enemies (enemySpawner (boss_motion dt (update_entities dt im now g))))
   \<and> set (projectiles (update dt im now g))
       \<subseteq> set (projectiles (boss_motion dt (update_entities dt im now g)))
   \<and> map g_pos (take (length (experienceGems (boss_motion dt (update_entities dt im now g))))
                   (experienceGems (update dt im now g)))
       = map g_pos (experienceGems (boss_motion dt (update_entities dt im now g)))"
proof -
  define M where "M = boss_motion dt (update_entities dt im now g)"
  define A where "A = checkBossCollisions dt M"
  define C where "C = checkPlayerEnemyCollisions dt (update_slowMo dt A)"
  define D where "D = checkProjectileEnemyCollisions C"
  have u: "update dt im now g = checkGemCollections D"
    by (simp add: update_def update_boss_split D_def C_def A_def M_def)
  have split: "\<forall>b. boss M = Some b \<and> \<not> b_isDestroyed b \<longrightarrow>
          checkBossCollisions dt M = projectileBossPass (playerBossContact dt b M)"
    by (simp add: checkBossCollisions_def)
  have pos: "pl_pos (player (checkGemCollections D)) = pl_pos (player M)"
    by (simp add: D_def C_def A_def)
  have "boss_position (checkGemCollections D) = boss_position A"
    by (rule boss_position_cong) (simp add: D_def C_def)
  then have bp: "boss_position (checkGemCollections D) = boss_position M"
    by (simp add: A_def checkBossCollisions_entities)
  have "enemySpawner C = enemySpawner M" by (simp add: C_def A_def)
  then have en: "enemies_kept (enemies (enemySpawner (checkGemCollections D)))
                   (enemies (enemySpawner M))"
    using checkProjectileEnemyCollisions_entities(1) [of C] by (simp add: D_def)
  have "set (projectiles D) \<subseteq> set (projectiles C)"
    unfolding D_def by (rule checkProjectileEnemyCollisions_entities)
  moreover have "projectiles C = projectiles A" by (simp add: C_def)
  moreover have "set (projectiles A) \<subseteq> set (projectiles M)"
    unfolding A_def by (rule checkBossCollisions_entities)
  ultimately have pr: "set (projectiles (checkGemCollections D)) \<subseteq> set (projectiles M)"
    by simp
  obtain ys where ys: "experienceGems D = experienceGems C @ ys"
    using checkProjectileEnemyCollisions_entities(2) [of C] by (auto simp: D_def)
  have gc: "experienceGems C = experienceGems M" by (simp add: C_def A_def)
  have "map g_pos (experienceGems (checkGemCollections D)) = map g_pos (experienceGems M @ ys)"
    by (simp add: checkGemCollections_positions ys gc)
  then have ge: "map g_pos (take (length (experienceGems M))
                   (experienceGems (checkGemCollections D))) = map g_pos (experienceGems M)"
    by (simp add: take_map [symmetric])
  show ?thesis
    unfolding M_def [symmetric] u A_def [symmetric]
    using split pos bp en pr ge
    by (simp add: D_def C_def A_def)
qed

theorem frame_order_witness:
  "boss (boss_motion (1 / 50) (update_entities (1 / 50) keys_none 0 contact_game))
     = Some (Boss_update (1 / 50) (vec 0 1 0) (boss_start (vec 0 0 0) new_Boss))
   \<and> \<not> b_isDestroyed (Boss_update (1 / 50) (vec 0 1 0) (boss_start (vec 0 0 0) new_Boss))
   \<and> checkBossCollisions (1 / 50)
         (boss_motion (1 / 50) (update_entities (1 / 50) keys_none 0 contact_game))
       = projectileBossPass
           (playerBossContact (1 / 50)
              (Boss_update (1 / 50) (vec 0 1 0) (boss_start (vec 0 0 0) new_Boss))
              (boss_motion (1 / 50) (update_entities (1 / 50) keys_none 0 contact_game)))
   \<and> pl_pos (player (update (1 / 50) keys_none 0 contact_game)) = vec 0 1 0
   \<and> boss_position (update (1 / 50) keys_none 0 contact_game) = Some (vec 0 2 0)"
proof -
  note fo = frame_order [of "1 / 50" keys_none 0 contact_game]
  note b = contact_boss_moved(1)
  note nd = contact_boss_moved(2)
  note s = fo [THEN conjunct2, THEN conjunct1, rule_format, OF conjI [OF b nd]]
  note p = fo [THEN conjunct2, THEN conjunct2, THEN conjunct1]
  note bp = fo [THEN conjunct2, THEN conjunct2, THEN conjunct2, THEN conjunct1]
  have p': "pl_pos (player (update (1 / 50) keys_none 0 contact_game)) = vec 0 1 0"
    unfolding p by (simp add: contact_entities)
  have bp': "boss_position (update (1 / 50) keys_none 0 contact_game) = Some (vec 0 2 0)"
    unfolding bp by (simp add: boss_position_def contact_boss_moved)
  show ?thesis using b nd s p' bp' by blast
qed

section \<open>Theorems: victory and slow motion\<close>

lemma handleShooting_keeps [simp]:
  "pl_pos (fst (handleShooting dt es p)) = pl_pos p"
  "currentHealth (fst (handleShooting dt es p)) = currentHealth p"
  "maxHealth (fst (handleShooting dt es p)) = maxHealth p"
  "healthRegen (fst (handleShooting dt es p)) = healthRegen p"
  "currentXp (fst (handleShooting dt es p)) = currentXp p"
  "skillManager (fst (handleShooting dt es p)) = skillManager p"
  by (simp_all add: handleShooting_def Let_def split: option.splits)

lemma handleRegen_keeps [simp]:
  "pl_pos (handleRegen dt p) = pl_pos p"
  "currentXp (handleRegen dt p) = currentXp p"
  "skillManager (handleRegen dt p) = skillManager p"
  by (simp_all add: handleRegen_def)

lemma handleMovement_keeps [simp]:
  "currentXp (handleMovement dt im p) = currentXp p"
  "currentHealth (handleMovement dt im p) = currentHealth p"
  "maxHealth (handleMovement dt im p) = maxHealth p"
  "moveSpeed (handleMovement dt im p) = moveSpeed p"
  "skillManager (handleMovement dt im p) = skillManager p"
  by (simp_all add: handleMovement_def Let_def split: prod.splits)

lemma Player_update_fst:
  "fst (Player_update dt im es p)
     = handleRegen dt (fst (handleShooting dt es (handleMovement dt im p)))"
  by (simp add: Player_update_def split: prod.splits)

lemma Player_update_pos:
  "pl_pos (fst (Player_update dt im es p)) = pl_pos (handleMovement dt im p)"
  "currentXp (fst (Player_update dt im es p)) = currentXp p"
  by (simp_all add: Player_update_fst)

lemma process_skill_results_keeps_all:
  "waveManager (process_skill_results snap rs g) = waveManager g
   \<and> player (process_skill_results snap rs g) = player g
   \<and> projectiles (process_skill_results snap rs g) = projectiles g
   \<and> contactDmgTimer (process_skill_results snap rs g) = contactDmgTimer g
   \<and> boss (process_skill_results snap rs g) = boss g
   \<and> bossSpawned (process_skill_results snap rs g) = bossSpawned g
   \<and> bossSpawnTime (process_skill_results snap rs g) = bossSpawnTime g
   \<and> slowMoScale (process_skill_results snap rs g) = slowMoScale g
   \<and> slowMoTimer (process_skill_results snap rs g) = slowMoTimer g
   \<and> isVictory (process_skill_results snap rs g) = isVictory g
   \<and> isPaused (process_skill_results snap rs g) = isPaused g
   \<and> victoryShown (process_skill_results snap rs g) = victoryShown g"
proof (induction rs arbitrary: g)
  case Nil
  show ?case by simp
next
  case (Cons i rs)
  show ?case
    by (simp add: Cons.IH spawnGem_def updateScore_def Let_def split: option.splits)
qed

lemma updateProjectiles_keeps [simp]:
  "waveManager (updateProjectiles dt g) = waveManager g"
  "player (updateProjectiles dt g) = player g"
  "enemySpawner (updateProjectiles dt g) = enemySpawner g"
  "experienceGems (updateProjectiles dt g) = experienceGems g"
  "contactDmgTimer (updateProjectiles dt g) = contactDmgTimer g"
  "boss (updateProjectiles dt g) = boss g"
  "bossSpawned (updateProjectiles dt g) = bossSpawned g"
  "bossSpawnTime (updateProjectiles dt g) = bossSpawnTime g"
  "slowMoScale (updateProjectiles dt g) = slowMoScale g"
  "slowMoTimer (updateProjectiles dt g) = slowMoTimer g"
  "isVictory (updateProjectiles dt g) = isVictory g"
  "isPaused (updateProjectiles dt g) = isPaused g"
  "victoryShown (updateProjectiles dt g) = victoryShown g"
  "score (updateProjectiles dt g) = score g"
  by (simp_all add: updateProjectiles_def)

lemma updateGems_keeps [simp]:
  "waveManager (updateGems dt g) = waveManager g"
  "player (updateGems dt g) = player g"
  "enemySpawner (updateGems dt g) = enemySpawner g"
  "projectiles (updateGems dt g) = projectiles g"
  "contactDmgTimer (updateGems dt g) = contactDmgTimer g"
  "boss (updateGems dt g) = boss g"
  "bossSpawned (updateGems dt g) = bossSpawned g"
  "bossSpawnTime (updateGems dt g) = bossSpawnTime g"
  "slowMoScale (updateGems dt g) = slowMoScale g"
  "slowMoTimer (updateGems dt g) = slowMoTimer g"
  "isVictory (updateGems dt g) = isVictory g"
  "isPaused (updateGems dt g) = isPaused g"
  "victoryShown (updateGems dt g) = victoryShown g"
  "score (updateGems dt g) = score g"
  by (simp_all add: updateGems_def)

lemma spawnBoss_keeps [simp]:
  "waveManager (spawnBoss g) = waveManager g"
  "player (spawnBoss g) = player g"
  "enemySpawner (spawnBoss g) = enemySpawner g"
  "projectiles (spawnBoss g) = projectiles g"
  "contactDmgTimer (spawnBoss g) = contactDmgTimer g"
  "slowMoScale (spawnBoss g) = slowMoScale g"
  "slowMoTimer (spawnBoss g) = slowMoTimer g"
  "isVictory (spawnBoss g) = isVictory g"
  "isPaused (spawnBoss g) = isPaused g"
  "victoryShown (spawnBoss g) = victoryShown g"
  by (simp_all add: spawnBoss_def Let_def)

lemma update_entities_keeps_all:
  "waveManager (update_entities dt im now g) = wave_update dt (waveManager g)
   \<and> pl_pos (player (update_entities dt im now g)) = pl_pos (handleMovement dt im (player g))
   \<and> currentXp (player (update_entities dt im now g)) = currentXp (player g)
   \<and> contactDmgTimer (update_entities dt im now g) = contactDmgTimer g
   \<and> slowMoScale (update_entities dt im now g) = slowMoScale g
   \<and> slowMoTimer (update_entities dt im now g) = slowMoTimer g
   \<and> isVictory (update_entities dt im now g) = isVictory g
   \<and> isPaused (update_entities dt im now g) = isPaused g
   \<and> victoryShown (update_entities dt im now g) = victoryShown g
   \<and> (bossSpawned g \<longrightarrow> boss (update_entities dt im now g) = boss g)"
proof -
  obtain p1 shots where pu:
    "Player_update dt im (enemies (enemySpawner g)) (player g) = (p1, shots)"
    by (cases "Player_update dt im (enemies (enemySpawner g)) (player g)")
  have p1: "p1 = fst (Player_update dt im (enemies (enemySpawner g)) (player g))"
    by (simp add: pu)
  have pos: "pl_pos p1 = pl_pos (handleMovement dt im (player g))"
       "currentXp p1 = currentXp (player g)"
    by (simp_all add: p1 Player_update_pos)
  show ?thesis
    using pos
    by (simp add: update_entities_def Let_def pu process_skill_results_keeps_all
          split: prod.splits)
qed

lemma update_gameTime:
  "gameTime (waveManager (update dt im now g)) = gameTime (waveManager g) + dt"
  by (simp add: update_def update_boss_split update_entities_keeps_all wave_update_def Let_def)

lemma update_pl_pos:
  "pl_pos (player (update dt im now g)) = pl_pos (handleMovement dt im (player g))"
  by (simp add: update_def update_boss_split update_entities_keeps_all)

lemma triggerVictory_sets:
  assumes "boss g = Some b"
  shows "isVictory (triggerVictory g)" "slowMoScale (triggerVictory g) = 0.2"
    "slowMoTimer (triggerVictory g) = 3" "score (triggerVictory g) = score g + 1000"
    "kills (triggerVictory g) = kills g + 1"
    "player (triggerVictory g) = fst (gainXp (b_xpValue b) (player g))"
    "boss (triggerVictory g) = Some (boss_destroy b)"
    "isPaused (triggerVictory g) = (isPaused g \<or> snd (gainXp (b_xpValue b) (player g)))"
  using assms
  by (simp_all add: triggerVictory_def Let_def gm_gainXp_def triggerLevelUp_def updateScore_def
        split: prod.splits)

lemma sqrt_100: "sqrt 100 = 10"
  by (rule real_sqrt_unique) simp_all

lemma dying_entities:
  "pl_pos (player (update_entities (1 / 50) keys_none 0 boss_dying_game)) = vec 0 1 0"
  "currentXp (player (update_entities (1 / 50) keys_none 0 boss_dying_game)) = 0"
  "xpToNextLevel (player (update_entities (1 / 50) keys_none 0 boss_dying_game)) = 20"
  "xpScaling (player (update_entities (1 / 50) keys_none 0 boss_dying_game)) = 1.5"
  "pl_level (player (update_entities (1 / 50) keys_none 0 boss_dying_game)) = 1"
  "enemies (enemySpawner (update_entities (1 / 50) keys_none 0 boss_dying_game)) = []"
  "boss (update_entities (1 / 50) keys_none 0 boss_dying_game)
     = Some ((boss_start (vec 10 0 0) new_Boss)\<lparr>b_health := 1\<rparr>)"
  "contactDmgTimer (update_entities (1 / 50) keys_none 0 boss_dying_game) = 0"
  "contactDmgInterval (update_entities (1 / 50) keys_none 0 boss_dying_game) = 0.5"
  "slowMoScale (update_entities (1 / 50) keys_none 0 boss_dying_game) = 1"
  "slowMoTimer (update_entities (1 / 50) keys_none 0 boss_dying_game) = 0"
  "score (update_entities (1 / 50) keys_none 0 boss_dying_game) = 0"
  "kills (update_entities (1 / 50) keys_none 0 boss_dying_game) = 0"
  "isPaused (update_entities (1 / 50) keys_none 0 boss_dying_game) = False"
  "bossSpawned (update_entities (1 / 50) keys_none 0 boss_dying_game)"
  "moveSpeed (player (update_entities (1 / 50) keys_none 0 boss_dying_game)) = 8"
  "isGameOver (update_entities (1 / 50) keys_none 0 boss_dying_game) = False"
  "waveManager (update_entities (1 / 50) keys_none 0 boss_dying_game)
     = wave_update (1 / 50) \<lparr>gameTime = 75, healthMult = 1.5, spawnMult = 0.8\<rparr>"
  "experienceGems (update_entities (1 / 50) keys_none 0 boss_dying_game) = []"
  "projectiles (update_entities (1 / 50) keys_none 0 boss_dying_game)
     = [(new_Projectile 1 0xffff00)\<lparr>p_pos := vec (17 / 2) 1 0, p_direction := vec 1 0 0,
                                      p_age := 1 / 50\<rparr>]"
  by (simp_all add: update_entities_def boss_dying_game_def new_GameManager_def Let_def
        wave_update_def Player_update_def handleMovement_def getMovementVector_def keys_none_def
        handleShooting_def handleRegen_def new_Player_def activeWeapon_def new_Weapon_def
        spawner_update_def new_EnemySpawner_def updateGems_def updateProjectiles_def
        projectile_update_def new_Projectile_def subVectors_def vec_def
        normalizeV_zero [unfolded vec_def] vlength_zero_vec [unfolded vec_def])

lemma checkPlayerEnemyCollisions_none:
  "enemies (enemySpawner g) = [] \<Longrightarrow>
   checkPlayerEnemyCollisions dt g = g\<lparr>contactDmgTimer := contactDmgTimer g + dt\<rparr>"
  by (simp add: checkPlayerEnemyCollisions_def touching_def Let_def)

lemma checkProjectileEnemyCollisions_none:
  "projectiles g = [] \<Longrightarrow> checkProjectileEnemyCollisions g = g"
  by (simp add: checkProjectileEnemyCollisions_def)

lemma checkGemCollections_none:
  "experienceGems g = [] \<Longrightarrow> checkGemCollections g = g"
  by (simp add: checkGemCollections_def)

lemma update_boss_dead: "boss g = Some b \<Longrightarrow> b_isDestroyed b \<Longrightarrow> update_boss dt g = g"
  by (simp add: update_boss_def)

lemma dying_boss_moved:
  "boss (boss_motion (1 / 50) (update_entities (1 / 50) keys_none 0 boss_dying_game))
     = Some ((boss_start (vec 10 0 0) new_Boss)
              \<lparr>b_health := 1, b_direction := vec (- 1) 0 0, b_pos := vec (997 / 100) 2 0\<rparr>)"
  by (simp add: boss_motion_def dying_entities Boss_update_def boss_start_def new_Boss_def
        Let_def subVectors_def vec_def normalizeV_def divideScalar_def vlength_def lengthSq_def
        sqrt_100)

lemma dyingB_simps:
  "b_pos dyingB = vec (997 / 100) 2 0" "\<not> b_isDestroyed dyingB" "b_health dyingB = 1"
  "b_xpValue dyingB = 500" "b_contactDamage dyingB = 50"
  by (simp_all add: dyingB_def boss_start_def new_Boss_def)

lemma dyingM_simps:
  "boss dyingM = Some dyingB"
  "pl_pos (player dyingM) = vec 0 1 0"
  "projectiles dyingM
     = [(new_Projectile 1 0xffff00)\<lparr>p_pos := vec (17 / 2) 1 0, p_direction := vec 1 0 0,
                                      p_age := 1 / 50\<rparr>]"
  by (simp_all add: dyingM_def dying_boss_moved dyingB_def dying_entities)

lemma dying_far: "\<not> distanceTo (vec 0 1 0) (vec (997 / 100) 2 0) < 3"
  by (simp add: distanceTo_less_iff lengthSq_def subVectors_def vec_def)

lemma dying_hit: "distanceTo (vec (17 / 2) 1 0) (vec (997 / 100) 2 0) < 3"
  by (simp add: distanceTo_less_iff lengthSq_def subVectors_def vec_def)

lemma dying_boss_pass:
  "checkBossCollisions (1 / 50) dyingM
     = triggerVictory (dyingM\<lparr>boss := Some (fst (boss_takeDamage 1 dyingB)), projectiles := []\<rparr>)"
  using dying_far dying_hit
  by (simp add: checkBossCollisions_def dyingM_simps dyingB_simps playerBossContact_def
        projectileBossPass_def new_Projectile_def boss_takeDamage_def Let_def)

lemma boss_motion_keeps2 [simp]:
  "score (boss_motion dt g) = score g"
  "kills (boss_motion dt g) = kills g"
  "bossSpawned (boss_motion dt g) = bossSpawned g"
  "isGameOver (boss_motion dt g) = isGameOver g"
  "isPaused (boss_motion dt g) = isPaused g"
  by (simp_all add: boss_motion_def split: option.splits)

lemma dyingM_more:
  "enemies (enemySpawner dyingM) = []" "experienceGems dyingM = []"
  "score dyingM = 0" "kills dyingM = 0" "currentXp (player dyingM) = 0"
  "xpToNextLevel (player dyingM) = 20" "xpScaling (player dyingM) = 1.5"
  "pl_level (player dyingM) = 1" "moveSpeed (player dyingM) = 8"
  "contactDmgTimer dyingM = 0"
  "waveManager dyingM = wave_update (1 / 50) \<lparr>gameTime = 75, healthMult = 1.5, spawnMult = 0.8\<rparr>"
  by (simp_all add: dyingM_def dying_entities)

lemma dyingM_flags:
  "bossSpawned dyingM" "\<not> isGameOver dyingM"
  by (simp_all add: dyingM_def dying_entities)

lemma victory_frame_eq:
  "victory_frame
     = (triggerVictory (dyingM\<lparr>boss := Some (fst (boss_takeDamage 1 dyingB)), projectiles := []\<rparr>))
         \<lparr>slowMoTimer := 149 / 50, contactDmgTimer := 1 / 50\<rparr>"
proof -
  let ?V = "triggerVictory (dyingM\<lparr>boss := Some (fst (boss_takeDamage 1 dyingB)), projectiles := []\<rparr>)"
  have b: "boss (dyingM\<lparr>boss := Some (fst (boss_takeDamage 1 dyingB)), projectiles := []\<rparr>)
             = Some (fst (boss_takeDamage 1 dyingB))" by simp
  have sm: "update_slowMo (1 / 50) ?V = ?V\<lparr>slowMoTimer := 149 / 50\<rparr>"
    by (simp add: update_slowMo_def triggerVictory_sets [OF b] Let_def)
  have "victory_frame
          = checkGemCollections (checkProjectileEnemyCollisions
              (checkPlayerEnemyCollisions (1 / 50) (update_slowMo (1 / 50) ?V)))"
    by (simp add: victory_frame_def update_def update_boss_split dyingM_def [symmetric]
          dying_boss_pass)
  also have "\<dots> = (?V\<lparr>slowMoTimer := 149 / 50\<rparr>)\<lparr>contactDmgTimer := 1 / 50\<rparr>"
    by (simp add: sm checkGemCollections_none checkProjectileEnemyCollisions_none
          checkPlayerEnemyCollisions_none dyingM_more)
  finally show ?thesis by simp
qed

lemma gainXp_boss_first_level:
  assumes "currentXp p = 0" and "xpToNextLevel p = 20" and "xpScaling p = 1.5"
    and "pl_level p = 1"
  shows "currentXp (fst (gainXp 500 p)) = 480 \<and> pl_level (fst (gainXp 500 p)) = 2
   \<and> xpToNextLevel (fst (gainXp 500 p)) = 30 \<and> snd (gainXp 500 p)
   \<and> moveSpeed (fst (gainXp 500 p)) = moveSpeed p"
proof -
  have f: "\<lfloor>xpToNextLevel p * xpScaling p\<rfloor> = 30" unfolding assms(2,3) by simp
  show ?thesis
    unfolding gainXp_def Let_def using assms(1,2,4) f by simp
qed

lemma victory_frame_simps:
  "isVictory victory_frame" "slowMoScale victory_frame = 0.2"
  "slowMoTimer victory_frame = 149 / 50" "score victory_frame = 1000" "kills victory_frame = 1"
  "currentXp (player victory_frame) = 480" "pl_level (player victory_frame) = 2"
  "isPaused victory_frame" "\<not> victoryShown victory_frame"
  "boss victory_frame = Some (boss_destroy (fst (boss_takeDamage 1 dyingB)))"
  "projectiles victory_frame = []"
  "pl_pos (player victory_frame) = vec 0 1 0" "moveSpeed (player victory_frame) = 8"
  "bossSpawned victory_frame" "\<not> isGameOver victory_frame"
  "gameTime (waveManager victory_frame) = 75 + 1 / 50"
proof -
  have b: "boss (dyingM\<lparr>boss := Some (fst (boss_takeDamage 1 dyingB)), projectiles := []\<rparr>)
             = Some (fst (boss_takeDamage 1 dyingB))" by simp
  have x: "b_xpValue (fst (boss_takeDamage 1 dyingB)) = 500"
    by (simp add: boss_takeDamage_def Let_def dyingB_simps)
  note gx = gainXp_boss_first_level [OF dyingM_more(5) dyingM_more(6) dyingM_more(7) dyingM_more(8)]
  note tv = triggerVictory_sets [OF b]
  show "isVictory victory_frame" "slowMoScale victory_frame = 0.2"
    "slowMoTimer victory_frame = 149 / 50" "score victory_frame = 1000" "kills victory_frame = 1"
    "boss victory_frame = Some (boss_destroy (fst (boss_takeDamage 1 dyingB)))"
    by (simp_all add: victory_frame_eq tv dyingM_more)
  show "currentXp (player victory_frame) = 480" "pl_level (player victory_frame) = 2"
    "isPaused victory_frame" "moveSpeed (player victory_frame) = 8"
    using gx by (simp_all add: victory_frame_eq tv x dyingM_more)
  show "projectiles victory_frame = []" "pl_pos (player victory_frame) = vec 0 1 0"
    by (simp_all add: victory_frame_eq dyingM_simps)
  have "victoryShown (update_entities (1 / 50) keys_none 0 boss_dying_game)
          = victoryShown boss_dying_game"
    by (simp add: update_entities_keeps_all)
  then show "\<not> victoryShown victory_frame"
    by (simp add: victory_frame_eq dyingM_def boss_dying_game_def new_GameManager_def)
  show "bossSpawned victory_frame" "\<not> isGameOver victory_frame"
    using dyingM_flags
    by (simp_all add: victory_frame_eq triggerVictory_def Let_def gm_gainXp_def
          triggerLevelUp_def updateScore_def split: prod.splits)
  show "gameTime (waveManager victory_frame) = 75 + 1 / 50"
    by (simp add: victory_frame_eq dyingM_more wave_update_def Let_def)
qed

lemma update_after_boss_death:
  assumes "boss g = Some b" and "b_isDestroyed b" and "bossSpawned g"
  shows "update dt im now g
           = checkGemCollections (checkProjectileEnemyCollisions
               (checkPlayerEnemyCollisions dt (update_slowMo dt (update_entities dt im now g))))"
proof -
  have "boss (update_entities dt im now g) = Some b"
    using assms by (simp add: update_entities_keeps_all)
  then have "update_boss dt (update_entities dt im now g) = update_entities dt im now g"
    using assms(2) by (rule update_boss_dead)
  then show ?thesis by (simp add: update_def)
qed

lemma slowMo_countdown:
  assumes "boss g = Some b" and "b_isDestroyed b" and "bossSpawned g"
    and "0 < slowMoTimer g" and "dt < slowMoTimer g"
  shows "slowMoTimer (update dt im now g) = slowMoTimer g - dt"
    and "slowMoScale (update dt im now g) = slowMoScale g"
    and "victoryShown (update dt im now g) = victoryShown g"
  using assms(4,5)
  by (simp_all add: update_after_boss_death [OF assms(1,2,3)] update_slowMo_def Let_def
        update_entities_keeps_all)

lemma victory_after_countdown:
  assumes "boss g = Some b" and "b_isDestroyed b" and "bossSpawned g"
    and "0 < slowMoTimer g" and "slowMoTimer g \<le> dt"
  shows "victoryShown (update dt im now g)"
    and "slowMoScale (update dt im now g) = 1"
    and "slowMoTimer (update dt im now g) = slowMoTimer g - dt"
  using assms(4,5)
  by (simp_all add: update_after_boss_death [OF assms(1,2,3)] update_slowMo_def Let_def
        update_entities_keeps_all)

lemma healPercent_keeps [simp]:
  "pl_pos (healPercent pct p) = pl_pos p" "moveSpeed (healPercent pct p) = moveSpeed p"
  "currentXp (healPercent pct p) = currentXp p"
  by (simp_all add: healPercent_def heal_def)

lemma victory_resumed_simps:
  "\<not> isPaused victory_resumed" "isVictory victory_resumed"
  "slowMoScale victory_resumed = 0.2" "slowMoTimer victory_resumed = 149 / 50"
  "boss victory_resumed = Some (boss_destroy (fst (boss_takeDamage 1 dyingB)))"
  "bossSpawned victory_resumed"
  "pl_pos (player victory_resumed) = vec 0 1 0" "moveSpeed (player victory_resumed) = 8"
  "gameTime (waveManager victory_resumed) = 75 + 1 / 50"
  by (simp_all add: victory_resumed_def selectUpgrade_def applyUpgrade_def victory_frame_simps)

lemma move_right:
  "pl_pos p = vec 0 1 0 \<Longrightarrow> moveSpeed p = 8 \<Longrightarrow>
   pl_pos (handleMovement (1 / 10) keys_right p) = vec (4 / 5) 1 0"
  by (simp add: handleMovement_def getMovementVector_def keys_right_def Let_def vlength_def
        lengthSq_def normalizeV_def divideScalar_def vec_def)

text \<open>
  C4. The frame in which a projectile brings the boss to 0 health sets the victory flag,
  the slow-motion scale 0.2 and a timer of 3 seconds, and grants the 1000 points and the
  boss's 500 experience. The scale is never applied, though: its only use scales the
  delta of the boss's own update, which no longer runs once the boss is destroyed. In
  the next frame that runs, with a delta of 0.1 s and the scale still at 0.2, the game
  clock advances by the full 0.1 s and the player moves the full 0.8 units; the
  timer counts down by the unscaled 0.1 s.
\<close>

theorem slow_motion_not_applied:
  "isVictory victory_frame \<and> slowMoScale victory_frame = 0.2
   \<and> slowMoTimer victory_frame = 3 - 1 / 50
   \<and> score victory_frame = 1000 \<and> currentXp (player victory_frame) = 480
   \<and> \<not> isPaused victory_resumed \<and> slowMoScale victory_resumed = 0.2
   \<and> gameTime (waveManager victory_resumed) = 75 + 1 / 50
   \<and> pl_pos (player victory_resumed) = vec 0 1 0
   \<and> slowMoScale (animate (1 / 10) keys_right 0 victory_resumed) = 0.2
   \<and> slowMoTimer (animate (1 / 10) keys_right 0 victory_resumed) = 3 - 1 / 50 - 1 / 10
   \<and> gameTime (waveManager (animate (1 / 10) keys_right 0 victory_resumed))
       = 75 + 1 / 50 + 1 / 10
   \<and> pl_pos (player (animate (1 / 10) keys_right 0 victory_resumed)) = vec (4 / 5) 1 0"
proof -
  have an: "animate (1 / 10) keys_right 0 victory_resumed
              = update (1 / 10) keys_right 0 victory_resumed"
    by (simp add: animate_def victory_resumed_simps)
  have bd: "b_isDestroyed (boss_destroy (fst (boss_takeDamage 1 dyingB)))"
    by (simp add: boss_destroy_def)
  have t: "0 < slowMoTimer victory_resumed" "1 / 10 < slowMoTimer victory_resumed"
    by (simp_all add: victory_resumed_simps)
  note cd = slowMo_countdown [OF victory_resumed_simps(5) bd victory_resumed_simps(6) t,
      of keys_right 0]
  have mv: "pl_pos (player (update (1 / 10) keys_right 0 victory_resumed)) = vec (4 / 5) 1 0"
    by (simp add: update_pl_pos move_right victory_resumed_simps)
  show ?thesis
    by (simp add: an cd mv update_gameTime victory_frame_simps victory_resumed_simps)
qed

section \<open>Theorems: movement within a frame\<close>

text \<open>
  C9. The player normalizes the movement input each frame: for a non-negative frame
  delta, every input vector that is not zero (whatever its magnitude) moves the player,
  over the whole frame, by exactly \<open>moveSpeed * dt\<close> in the ground plane, and a zero
  input vector does not move the player at all; the height never changes.
\<close>

theorem movement_normalized:
  assumes "0 \<le> dt" and "0 \<le> moveSpeed (player g)" and "getMovementVector im = (mx, mz)"
  shows "(\<not> (mx = 0 \<and> mz = 0) \<longrightarrow>
            sqrt ((vx (pl_pos (player (update dt im now g))) - vx (pl_pos (player g)))
                    * (vx (pl_pos (player (update dt im now g))) - vx (pl_pos (player g)))
                  + (vz (pl_pos (player (update dt im now g))) - vz (pl_pos (player g)))
                    * (vz (pl_pos (player (update dt im now g))) - vz (pl_pos (player g))))
              = moveSpeed (player g) * dt)
       \<and> (mx = 0 \<and> mz = 0 \<longrightarrow> pl_pos (player (update dt im now g)) = pl_pos (player g))
       \<and> vy (pl_pos (player (update dt im now g))) = vy (pl_pos (player g))"
  using handleMovement_normalized [OF assms] by (simp add: update_pl_pos)

theorem movement_normalized_witness:
  "(0::real) \<le> 1 / 60 \<and> 0 \<le> moveSpeed (player (new_GameManager rnd_zero))
   \<and> getMovementVector keys_diag = (1, 1)
   \<and> sqrt ((vx (pl_pos (player (update (1 / 60) keys_diag 0 (new_GameManager rnd_zero))))
               - vx (pl_pos (player (new_GameManager rnd_zero))))
              * (vx (pl_pos (player (update (1 / 60) keys_diag 0 (new_GameManager rnd_zero))))
                 - vx (pl_pos (player (new_GameManager rnd_zero))))
            + (vz (pl_pos (player (update (1 / 60) keys_diag 0 (new_GameManager rnd_zero))))
               - vz (pl_pos (player (new_GameManager rnd_zero))))
              * (vz (pl_pos (player (update (1 / 60) keys_diag 0 (new_GameManager rnd_zero))))
                 - vz (pl_pos (player (new_GameManager rnd_zero)))))
        = 8 * (1 / 60)
   \<and> getMovementVector joystick_soft = (0.3, - 0.4)
   \<and> sqrt ((vx (pl_pos (player (update (1 / 60) joystick_soft 0 (new_GameManager rnd_zero))))
               - vx (pl_pos (player (new_GameManager rnd_zero))))
              * (vx (pl_pos (player (update (1 / 60) joystick_soft 0 (new_GameManager rnd_zero))))
                 - vx (pl_pos (player (new_GameManager rnd_zero))))
            + (vz (pl_pos (player (update (1 / 60) joystick_soft 0 (new_GameManager rnd_zero))))
               - vz (pl_pos (player (new_GameManager rnd_zero))))
              * (vz (pl_pos (player (update (1 / 60) joystick_soft 0 (new_GameManager rnd_zero))))
                 - vz (pl_pos (player (new_GameManager rnd_zero)))))
        = 8 * (1 / 60)
   \<and> getMovementVector keys_none = (0, 0)
   \<and> pl_pos (player (update (1 / 60) keys_none 0 (new_GameManager rnd_zero)))
       = pl_pos (player (new_GameManager rnd_zero))"
proof -
  have d: "(0::real) \<le> 1 / 60" by simp
  have s8: "moveSpeed (player (new_GameManager rnd_zero)) = 8"
    by (simp add: new_GameManager_def new_Player_def)
  have s: "0 \<le> moveSpeed (player (new_GameManager rnd_zero))" by (simp add: s8)
  have k: "getMovementVector keys_diag = (1, 1)"
    by (simp add: getMovementVector_def keys_diag_def)
  have j: "getMovementVector joystick_soft = (0.3, - 0.4)"
    by (simp add: getMovementVector_def joystick_soft_def)
  have n: "getMovementVector keys_none = (0, 0)"
    by (simp add: getMovementVector_def keys_none_def)
  show ?thesis
    using movement_normalized [OF d s k, of 0] movement_normalized [OF d s j, of 0]
          movement_normalized [OF d s n, of 0] d s k j n
    by (simp add: s8)
qed

section \<open>Theorems: the enemy array and ThunderStrike within a frame\<close>

text \<open>
  The enemy array never holds a destroyed enemy: the array of a new game is empty, and
  every step of a frame, the pass of the spawner, of each skill, of the reward loop and
  of the projectile collisions, keeps the property. So whenever \<^verbatim>\<open>ThunderStrike.update\<close>
  runs, called by the skill manager on the spawner's array, \<open>noneDestroyed\<close> holds of
  its argument, and there is no valid target exactly when the array is empty.
\<close>

lemma noneDestroyed_simps [simp]:
  "noneDestroyed []"
  "noneDestroyed (e # es) = (\<not> e_isDestroyed e \<and> noneDestroyed es)"
  "noneDestroyed (es @ fs) = (noneDestroyed es \<and> noneDestroyed fs)"
  by (simp_all add: noneDestroyed_def)

lemma noneDestroyed_iff: "noneDestroyed es = (\<forall>e \<in> set es. \<not> e_isDestroyed e)"
  by (simp add: noneDestroyed_def list_all_iff)

lemma validEnemies_noneDestroyed:
  assumes "noneDestroyed es"
  shows "validEnemies es = [0 ..< length es]"
  unfolding validEnemies_def using assms
  by (intro filter_True) (simp add: noneDestroyed_iff)

lemma no_target_is_empty: "noneDestroyed es \<Longrightarrow> (validEnemies es = []) = (es = [])"
  by (simp add: validEnemies_noneDestroyed)

lemma enemy_update_isDestroyed [simp]:
  "e_isDestroyed (enemy_update dt p e) = e_isDestroyed e"
  by (simp add: enemy_update_def Let_def)

lemma enemy_takeDamage_isDestroyed [simp]:
  "e_isDestroyed (fst (enemy_takeDamage amt e)) = e_isDestroyed e"
  by (simp add: enemy_takeDamage_def Let_def)

lemma noneDestroyed_map:
  "(\<And>e. e_isDestroyed (f e) = e_isDestroyed e) \<Longrightarrow> noneDestroyed (map f es) = noneDestroyed es"
  by (induction es) simp_all

lemma noneDestroyed_update:
  "noneDestroyed es \<Longrightarrow> \<not> e_isDestroyed e \<Longrightarrow> noneDestroyed (es[i := e])"
  unfolding noneDestroyed_iff using set_update_subset_insert [of es i e] by auto

lemma noneDestroyed_take_drop:
  "noneDestroyed es \<Longrightarrow> noneDestroyed (take j es)"
  "noneDestroyed es \<Longrightarrow> noneDestroyed (drop j es)"
  unfolding noneDestroyed_iff by (auto dest: in_set_takeD in_set_dropD)

lemma noneDestroyed_nth: "noneDestroyed es \<Longrightarrow> i < length es \<Longrightarrow> \<not> e_isDestroyed (es ! i)"
  unfolding noneDestroyed_iff by simp

lemma spawner_update_noneDestroyed:
  "noneDestroyed (enemies sp)
   \<Longrightarrow> noneDestroyed (enemies (fst (spawner_update dt rnd k wm ppos sp)))"
  by (simp add: spawner_update_def spawn_def Let_def noneDestroyed_map enemy_start_def
        new_Enemy_def)

lemma orbital_hit_enemy_isDestroyed:
  "e_isDestroyed (fst (snd (orbital_hit_enemy now ppos dmg iv obs cd e))) = e_isDestroyed e"
proof (induction obs arbitrary: cd e)
  case Nil
  show ?case by simp
next
  case (Cons ob obs)
  show ?case by (simp add: Cons.IH enemy_takeDamage_def Let_def)
qed

lemma orbital_scan_noneDestroyed:
  "noneDestroyed es \<Longrightarrow> noneDestroyed (fst (snd (orbital_scan now ppos dmg iv obs es cd)))"
proof (induction es arbitrary: cd)
  case Nil
  show ?case by simp
next
  case (Cons e es)
  obtain cd1 e1 died where h: "orbital_hit_enemy now ppos dmg iv obs cd e = (cd1, e1, died)"
    by (cases "orbital_hit_enemy now ppos dmg iv obs cd e") auto
  have e1: "\<not> e_isDestroyed e1"
    using orbital_hit_enemy_isDestroyed [of now ppos dmg iv obs cd e] Cons.prems by (simp add: h)
  obtain cd2 es2 r where s: "orbital_scan now ppos dmg iv obs es cd1 = (cd2, es2, r)"
    by (cases "orbital_scan now ppos dmg iv obs es cd1") auto
  have "noneDestroyed es2" using Cons.IH [of cd1] Cons.prems by (simp add: s)
  then show ?case using Cons.prems e1 by (simp add: h s)
qed

lemma orbital_scan_noneDestroyedD:
  "orbital_scan now ppos dmg iv obs es cd = (cd1, es1, r) \<Longrightarrow> noneDestroyed es
   \<Longrightarrow> noneDestroyed es1"
  using orbital_scan_noneDestroyed [of es now ppos dmg iv obs cd] by simp

lemma orbital_update_noneDestroyed:
  "noneDestroyed es \<Longrightarrow> noneDestroyed (fst (snd (orbital_update dt now ppos es sh)))"
  by (auto simp: orbital_update_def Let_def split: prod.splits dest: orbital_scan_noneDestroyedD)

lemma thunder_update_noneDestroyed:
  "noneDestroyed es \<Longrightarrow> noneDestroyed (fst (snd (thunder_update dt rnd k es t)))"
  by (auto simp: thunder_update_def Let_def enemy_takeDamage_def validEnemies_noneDestroyed
        noneDestroyed_nth intro!: noneDestroyed_update split: prod.splits)

lemma skill_update_noneDestroyed:
  "noneDestroyed es \<Longrightarrow> noneDestroyed (fst (snd (skill_update dt now rnd k ppos es sk)))"
proof (cases sk)
  case (OrbitalSkill sh)
  assume "noneDestroyed es"
  from orbital_update_noneDestroyed [OF this, of dt now ppos sh] show ?thesis
    by (auto simp: OrbitalSkill split: prod.splits)
next
  case (ThunderSkill t)
  assume "noneDestroyed es"
  from thunder_update_noneDestroyed [OF this, of dt rnd k t] show ?thesis
    by (auto simp: ThunderSkill split: prod.splits)
qed

lemma skills_update_noneDestroyed:
  "noneDestroyed es \<Longrightarrow> noneDestroyed (fst (snd (skills_update dt now rnd k ppos es sm)))"
proof (induction sm arbitrary: es k)
  case Nil
  then show ?case by simp
next
  case (Cons a sm)
  obtain key sk where a: "a = (key, sk)" by (cases a)
  obtain sk1 es1 k1 r where s: "skill_update dt now rnd k ppos es sk = (sk1, es1, k1, r)"
    by (cases "skill_update dt now rnd k ppos es sk") auto
  have "noneDestroyed es1"
    using skill_update_noneDestroyed [OF Cons.prems, of dt now rnd k ppos sk] by (simp add: s)
  from Cons.IH [OF this, of k1] show ?case
    by (auto simp: a s split: prod.splits)
qed

lemma remove_id_noneDestroyed: "noneDestroyed es \<Longrightarrow> noneDestroyed (remove_id i es)"
  by (induction es) simp_all

lemma process_skill_results_noneDestroyed:
  "noneDestroyed (enemies (enemySpawner g))
   \<Longrightarrow> noneDestroyed (enemies (enemySpawner (process_skill_results snap rs g)))"
proof (induction rs arbitrary: g)
  case Nil
  then show ?case by simp
next
  case (Cons i rs)
  show ?case
    using Cons.prems
    by (auto simp: spawnGem_def updateScore_def removeEnemy_def Let_def remove_id_noneDestroyed
          intro!: Cons.IH split: option.splits)
qed

lemma update_entities_noneDestroyed:
  assumes "noneDestroyed (enemies (enemySpawner g))"
  shows "noneDestroyed (enemies (enemySpawner (update_entities dt im now g)))"
proof -
  obtain p1 shots where pu:
    "Player_update dt im (enemies (enemySpawner g)) (player g) = (p1, shots)"
    by (cases "Player_update dt im (enemies (enemySpawner g)) (player g)")
  obtain sp k1 where su:
    "spawner_update dt (randoms g) (drawn g) (wave_update dt (waveManager g)) (pl_pos p1)
       (enemySpawner g) = (sp, k1)"
    by (cases "spawner_update dt (randoms g) (drawn g) (wave_update dt (waveManager g)) (pl_pos p1)
       (enemySpawner g)")
  have a: "noneDestroyed (enemies sp)"
    using spawner_update_noneDestroyed [OF assms, of dt "randoms g" "drawn g"
        "wave_update dt (waveManager g)" "pl_pos p1"] by (simp add: su)
  obtain sm es k2 rs where sk:
    "skills_update dt now (randoms g) k1 (pl_pos p1) (enemies sp) (skillManager p1)
       = (sm, es, k2, rs)"
    by (cases "skills_update dt now (randoms g) k1 (pl_pos p1) (enemies sp) (skillManager p1)") auto
  have b: "noneDestroyed es"
    using skills_update_noneDestroyed [OF a, of dt now "randoms g" k1 "pl_pos p1" "skillManager p1"]
    by (simp add: sk)
  show ?thesis
    using b
    by (simp add: update_entities_def Let_def pu su sk process_skill_results_noneDestroyed)
qed

lemma resolveHit_noneDestroyed:
  "noneDestroyed (enemies (enemySpawner g)) \<Longrightarrow> j < length (enemies (enemySpawner g))
   \<Longrightarrow> noneDestroyed (enemies (enemySpawner (resolveHit p j g)))"
  by (simp add: resolveHit_enemies noneDestroyed_take_drop noneDestroyed_update noneDestroyed_nth)

lemma hitIndex_bound: "hitIndex d p es = Some j \<Longrightarrow> j < length es"
  unfolding hitIndex_def by (auto dest: find_SomeD)

lemma projectileEnemyLoop_noneDestroyed:
  "noneDestroyed (enemies (enemySpawner g))
   \<Longrightarrow> noneDestroyed (enemies (enemySpawner (projectileEnemyLoop todo kept g)))"
proof (induction todo arbitrary: kept g)
  case Nil
  then show ?case by simp
next
  case (Cons p todo)
  obtain k1 g1 where st: "projectileEnemyStep p kept g = (k1, g1)"
    by (cases "projectileEnemyStep p kept g")
  have "noneDestroyed (enemies (enemySpawner g1))"
    using st Cons.prems
    by (auto simp: projectileEnemyStep_def resolveHit_noneDestroyed hitIndex_bound
          split: if_splits option.splits)
  from Cons.IH [OF this, of k1] show ?case by (simp add: st)
qed

lemma update_noneDestroyed:
  assumes "noneDestroyed (enemies (enemySpawner g))"
  shows "noneDestroyed (enemies (enemySpawner (update dt im now g)))"
  using update_entities_noneDestroyed [OF assms, of dt im now]
  by (simp add: update_def update_boss_split checkProjectileEnemyCollisions_def
        projectileEnemyLoop_noneDestroyed)

lemma new_GameManager_noneDestroyed:
  "noneDestroyed (enemies (enemySpawner (new_GameManager rnd)))"
  by (simp add: new_GameManager_def new_EnemySpawner_def)

lemma animate_noneDestroyed:
  "noneDestroyed (enemies (enemySpawner g))
   \<Longrightarrow> noneDestroyed (enemies (enemySpawner (animate dt im now g)))"
  by (simp add: animate_def update_noneDestroyed)

lemma selectUpgrade_enemies:
  "enemySpawner (selectUpgrade ident g) = enemySpawner g"
  by (simp add: selectUpgrade_def applyUpgrade_def)

text \<open>
  C6. Whenever an active ThunderStrike is updated with its cooldown expired and no
  valid (non-destroyed) target in the enemy array, an array as the game holds it, with
  no destroyed enemy left in it: no enemy is damaged, nothing is reported, and the timer
  is not reset; it keeps the accumulated time \<open>timer + dt\<close>. The skill stays active
  with the same cooldown, so the cooldown is still expired on every later update (for a
  non-negative delta), and the strike fires on the first of them that finds a
  non-destroyed enemy: it damages one such enemy by the skill's damage and only then
  resets the timer to 0.
\<close>

theorem thunder_no_target:
  assumes active: "ts_isActive t" and expired: "cooldown t \<le> ts_timer t + dt"
    and inv: "noneDestroyed es" and none: "validEnemies es = []"
  shows "fst (snd (thunder_update dt rnd k es t)) = es
         \<and> snd (snd (snd (thunder_update dt rnd k es t))) = None
         \<and> ts_timer (fst (thunder_update dt rnd k es t)) = ts_timer t + dt
         \<and> ts_isActive (fst (thunder_update dt rnd k es t))
         \<and> cooldown (fst (thunder_update dt rnd k es t)) = cooldown t
         \<and> (0 \<le> dt2 \<longrightarrow>
              cooldown (fst (thunder_update dt rnd k es t))
                \<le> ts_timer (fst (thunder_update dt rnd k es t)) + dt2)
         \<and> (0 \<le> dt2 \<and> validEnemies es2 \<noteq> [] \<and> 0 \<le> rnd k \<and> rnd k < 1 \<longrightarrow>
             (\<exists>i \<in> set (validEnemies es2).
                fst (snd (thunder_update dt2 rnd k es2 (fst (thunder_update dt rnd k es t))))
                  = es2[i := fst (enemy_takeDamage (ts_damage t) (es2 ! i))]
                \<and> ts_timer (fst (thunder_update dt2 rnd k es2 (fst (thunder_update dt rnd k es t)))) = 0))"
proof -
  let ?t1 = "fst (thunder_update dt rnd k es t)"
  have empty: "es = []" using inv none by (simp add: no_target_is_empty)
  have idle: "thunder_update dt rnd k es t =
           (t\<lparr>lightningBolts := age_bolts dt (lightningBolts t),
              ts_timer := (if es = [] then ts_timer t + dt else 0)\<rparr>, es, k, None)"
    using active expired none by (rule thunder_idle)
  have t0: "?t1 = t\<lparr>lightningBolts := age_bolts dt (lightningBolts t),
                     ts_timer := (if es = [] then ts_timer t + dt else 0)\<rparr>"
    by (simp add: idle)
  have t1: "?t1 = t\<lparr>lightningBolts := age_bolts dt (lightningBolts t),
                     ts_timer := ts_timer t + dt\<rparr>"
    unfolding t0 using empty by simp
  have a: "ts_isActive ?t1" unfolding t1 using active by simp
  have c: "cooldown ?t1 = cooldown t" unfolding t1 by simp
  have tm: "ts_timer ?t1 = ts_timer t + dt" unfolding t1 by simp
  have b: "cooldown ?t1 \<le> ts_timer ?t1 + dt2" if "0 \<le> dt2"
    unfolding c tm using expired that by simp
  have d: "ts_damage ?t1 = ts_damage t" unfolding t1 by simp
  have second: "\<exists>i \<in> set (validEnemies es2).
                fst (snd (thunder_update dt2 rnd k es2 ?t1))
                  = es2[i := fst (enemy_takeDamage (ts_damage t) (es2 ! i))]
                \<and> ts_timer (fst (thunder_update dt2 rnd k es2 ?t1)) = 0"
    if h: "0 \<le> dt2" "validEnemies es2 \<noteq> []" "0 \<le> rnd k" "rnd k < 1"
    using thunder_fire [of ?t1 dt2 es2 rnd k] a b [OF h(1)] h(2) h(3) h(4) unfolding d by blast
  have r1: "fst (snd (thunder_update dt rnd k es t)) = es"
    and r2: "snd (snd (snd (thunder_update dt rnd k es t))) = None"
    by (simp_all add: idle)
  show ?thesis using r1 r2 tm a c b second by blast
qed

theorem thunder_no_target_witness:
  "ts_isActive ready_thunder \<and> cooldown ready_thunder \<le> ts_timer ready_thunder + 0.016
   \<and> noneDestroyed [] \<and> validEnemies [] = []
   \<and> ts_timer (fst (thunder_update 0.016 rnd_zero 0 [] ready_thunder)) = 3.016
   \<and> (0::real) \<le> 0.016 \<and> validEnemies [live_enemy] \<noteq> [] \<and> 0 \<le> rnd_zero 0 \<and> rnd_zero 0 < 1
   \<and> e_health (hd (fst (snd (thunder_update 0.016 rnd_zero 0 [live_enemy]
                               (fst (thunder_update 0.016 rnd_zero 0 [] ready_thunder)))))) = - 47
   \<and> ts_timer (fst (thunder_update 0.016 rnd_zero 0 [live_enemy]
                      (fst (thunder_update 0.016 rnd_zero 0 [] ready_thunder)))) = 0"
proof -
  have a: "ts_isActive ready_thunder"
    by (simp add: ready_thunder_def thunder_start_def new_ThunderStrike_def)
  have b: "cooldown ready_thunder \<le> ts_timer ready_thunder + 0.016"
    by (simp add: ready_thunder_def thunder_start_def new_ThunderStrike_def)
  have i: "noneDestroyed []" by simp
  have c: "validEnemies [] = []" by (simp add: validEnemies_def)
  have v: "validEnemies [live_enemy] = [0]"
    by (simp add: validEnemies_def live_enemy_def enemy_start_def new_Enemy_def Let_def)
  have r: "rnd_zero 0 = 0" by (simp add: rnd_zero_def)
  have dmg: "ts_damage ready_thunder = 50"
    by (simp add: ready_thunder_def thunder_start_def new_ThunderStrike_def)
  have hp: "e_health (fst (enemy_takeDamage 50 live_enemy)) = - 47"
    by (simp add: enemy_takeDamage_def live_enemy_def enemy_start_def new_Enemy_def Let_def)
  have t3: "ts_timer ready_thunder = 3"
    by (simp add: ready_thunder_def thunder_start_def new_ThunderStrike_def)
  show ?thesis
    using thunder_no_target [OF a b i c, of rnd_zero 0 "0.016" "[live_enemy]"] a b c
    by (simp add: v r dmg hp t3)
qed

text \<open>
  The hypothesis on the array cannot be dropped: on an array that is not empty and holds
  only destroyed enemies, which no frame produces, the update resets the timer without a
  strike.
\<close>

lemma thunder_update_destroyed_only:
  "ts_isActive ready_thunder \<and> cooldown ready_thunder \<le> ts_timer ready_thunder + 0.016
   \<and> \<not> noneDestroyed [dead_enemy] \<and> validEnemies [dead_enemy] = []
   \<and> ts_timer (fst (thunder_update 0.016 rnd_zero 0 [dead_enemy] ready_thunder)) = 0"
  by (simp add: thunder_update_def ready_thunder_def thunder_start_def new_ThunderStrike_def
        validEnemies_def dead_enemy_def enemy_destroy_def enemy_start_def new_Enemy_def Let_def)

end
